theory Spec2Isabelle
  imports Main "HOL-Library.AList" "HOL-Library.Sublist"
begin

section \<open>Knowledge-graph assembly from tables (try1.py)\<close>

text \<open>
  The development embeds \<^verbatim>\<open>build_graph\<close> of \<^verbatim>\<open>try1.py\<close> together with the
  helpers it calls. A pandas data frame is a list of column labels and a list of rows; a
  row read through \<^verbatim>\<open>iterrows\<close> is a series indexed by the frame's columns. A cell
  is a string, a number or the missing-value marker NaN (what \<^verbatim>\<open>read_csv\<close> with
  \<^verbatim>\<open>dtype=str\<close> yields for a blank field). Python dictionaries are association lists
  in insertion order, with keys kept distinct by the update operations.

  The text of a cell is a Python \<^verbatim>\<open>str\<close>, modelled as the list of its Unicode code
  points (integers), because \<^verbatim>\<open>strip\<close> looks at the characters. Column labels and attribute keys
  are only ever compared for equality; they are byte strings (the UTF-8 form of the label).
  Numeric cells are integers; floating-point cells other than NaN are not modelled. The
  column labels of a table are taken to be distinct, as \<^verbatim>\<open>read_csv\<close> makes them.
\<close>

subsection \<open>Cells, rows and tables\<close>

type_synonym ustring = "int list"

text \<open>The code points of an ASCII literal.\<close>

definition ustr :: "string \<Rightarrow> ustring" where
  "ustr s = map of_char s"

datatype cell = Str ustring | Num int | NaN

record series =
  index :: "string list"
  cell_at :: "string \<Rightarrow> cell"

record table =
  columns :: "string list"
  rows :: "(string \<Rightarrow> cell) list"

definition iterrows :: "table \<Rightarrow> series list" where
  "iterrows df = map (\<lambda>r. \<lparr>index = columns df, cell_at = r\<rparr>) (rows df)"

text \<open>A row given by its listed cells; every other column reads as NaN.\<close>

definition mk_row :: "(string \<times> cell) list \<Rightarrow> string \<Rightarrow> cell" where
  "mk_row al k = (case map_of al k of Some c \<Rightarrow> c | None \<Rightarrow> NaN)"

subsection \<open>Python's \<^verbatim>\<open>str\<close> and truth value of a cell\<close>

fun nat_digits :: "nat \<Rightarrow> ustring" where
  "nat_digits n =
     (if n < 10 then [48 + int n]
      else nat_digits (n div 10) @ [48 + int (n mod 10)])"

declare nat_digits.simps [simp del]

fun py_str :: "cell \<Rightarrow> ustring" where
  "py_str (Str s) = s"
| "py_str (Num i) = (if i < 0 then 45 # nat_digits (nat (- i)) else nat_digits (nat i))"
| "py_str NaN = ustr ''nan''"

text \<open>
  \<^verbatim>\<open>if node_type:\<close> tests the truth value of \<^verbatim>\<open>None\<close>, a string, a number or
  NaN. NaN is a non-zero float and therefore true.
\<close>

fun truthy :: "cell option \<Rightarrow> bool" where
  "truthy None = False"
| "truthy (Some (Str s)) = (s \<noteq> [])"
| "truthy (Some (Num i)) = (i \<noteq> 0)"
| "truthy (Some NaN) = True"

subsection \<open>Attribute values and dictionaries\<close>

datatype json =
    JNull
  | JBool bool
  | JNum int
  | JStr ustring
  | JArr "json list"
  | JObj "(ustring \<times> json) list"

datatype pval = Cell cell | Flag bool | Json json

type_synonym attrs = "(string \<times> pval) list"

text \<open>\<^verbatim>\<open>d.update(e)\<close>: every pair of \<open>e\<close>, in order, is stored into \<open>d\<close>.\<close>

definition dict_update :: "('k \<times> 'v) list \<Rightarrow> ('k \<times> 'v) list \<Rightarrow> ('k \<times> 'v) list" where
  "dict_update d e = fold (\<lambda>(k, v) acc. AList.update k v acc) e d"

text \<open>\<^verbatim>\<open>d.setdefault(k, v)\<close>: stores \<open>v\<close> only when \<open>k\<close> is not yet a key.\<close>

definition dict_setdefault :: "('k \<times> 'v) list \<Rightarrow> 'k \<Rightarrow> 'v \<Rightarrow> ('k \<times> 'v) list" where
  "dict_setdefault d k v = (case map_of d k of None \<Rightarrow> d @ [(k, v)] | Some _ \<Rightarrow> d)"

text \<open>\<^verbatim>\<open>Series.to_dict()\<close>: the pairs of the series, a repeated label keeping its last value.\<close>

definition to_dict :: "('k \<times> 'v) list \<Rightarrow> ('k \<times> 'v) list" where
  "to_dict ps = dict_update [] ps"

subsection \<open>\<^verbatim>\<open>parse_properties_from_row\<close>\<close>

text \<open>
  The characters \<^verbatim>\<open>str.strip()\<close> removes: the code points for which \<^verbatim>\<open>str.isspace\<close>
  holds, that is U+0009 to U+000D, U+001C to U+0020, U+0085, U+00A0, U+1680, U+2000 to
  U+200A, U+2028, U+2029, U+202F, U+205F and U+3000.
\<close>

definition is_space :: "int \<Rightarrow> bool" where
  "is_space c =
     ((9 \<le> c \<and> c \<le> 13) \<or> (28 \<le> c \<and> c \<le> 32) \<or> c = 133 \<or> c = 160 \<or> c = 5760 \<or>
      (8192 \<le> c \<and> c \<le> 8202) \<or> c = 8232 \<or> c = 8233 \<or> c = 8239 \<or> c = 8287 \<or>
      c = 12288)"

definition strip :: "ustring \<Rightarrow> ustring" where
  "strip s = rev (dropWhile is_space (rev (dropWhile is_space s)))"

definition startswith :: "ustring \<Rightarrow> int \<Rightarrow> bool" where
  "startswith s c = (case s of [] \<Rightarrow> False | x # _ \<Rightarrow> x = c)"

definition endswith :: "ustring \<Rightarrow> int \<Rightarrow> bool" where
  "endswith s c = (case rev s of [] \<Rightarrow> False | x # _ \<Rightarrow> x = c)"

definition looks_structured :: "ustring \<Rightarrow> bool" where
  "looks_structured s =
     ((startswith s (of_char CHR ''{'') \<and> endswith s (of_char CHR ''}'')) \<or>
      (startswith s (of_char CHR ''['') \<and> endswith s (of_char CHR '']'')))"

text \<open>
  The body of the loop over \<^verbatim>\<open>props.items()\<close>. The decoder \<^verbatim>\<open>json.loads\<close> belongs to
  the Python library; it is the parameter \<open>loads\<close>, with \<open>None\<close> for any exception it
  raises (the \<^verbatim>\<open>except Exception: pass\<close> branch).
\<close>

definition decode_value :: "(ustring \<Rightarrow> json option) \<Rightarrow> cell \<Rightarrow> pval" where
  "decode_value loads v =
     (case v of
        Str t \<Rightarrow>
          (let s = strip t in
           if looks_structured s then
             (case loads s of Some j \<Rightarrow> Json j | None \<Rightarrow> Cell (Str t))
           else Cell (Str t))
      | _ \<Rightarrow> Cell v)"

text \<open>
  \<^verbatim>\<open>row.drop(labels=drop_cols, errors='ignore').replace('', pd.NA).dropna().to_dict()\<close>.
  The list \<open>drop_cols\<close> may hold \<^verbatim>\<open>None\<close> (an unresolved optional column), which
  matches no label.
\<close>

definition surviving :: "series \<Rightarrow> string option list \<Rightarrow> (string \<times> cell) list" where
  "surviving row drop_cols =
     to_dict (filter (\<lambda>(k, c). c \<noteq> Str [] \<and> c \<noteq> NaN)
        (map (\<lambda>k. (k, cell_at row k))
           (filter (\<lambda>k. Some k \<notin> set drop_cols) (index row))))"

definition parse_properties_from_row ::
  "(ustring \<Rightarrow> json option) \<Rightarrow> series \<Rightarrow> string option list \<Rightarrow> attrs" where
  "parse_properties_from_row loads row drop_cols =
     map (\<lambda>(k, v). (k, decode_value loads v)) (surviving row drop_cols)"

subsection \<open>Column resolution\<close>

text \<open>
  The exceptions that leave \<^verbatim>\<open>build_graph\<close>: the \<^verbatim>\<open>KeyError\<close> it raises itself, with
  its message, and the \<^verbatim>\<open>TypeError\<close> of a call whose keyword arguments repeat a
  parameter name.
\<close>

datatype error = KeyError string | TypeError

text \<open>The loop \<^verbatim>\<open>for c in candidates: if c in df.columns: ...\<close> stopping at the first hit.\<close>

fun find_col :: "string list \<Rightarrow> string list \<Rightarrow> string option" where
  "find_col [] cols = None"
| "find_col (c # cs) cols = (if c \<in> set cols then Some c else find_col cs cols)"

text \<open>\<^verbatim>\<open>sep.join(xs)\<close>.\<close>

fun join :: "string \<Rightarrow> string list \<Rightarrow> string" where
  "join sep [] = []"
| "join sep [x] = x"
| "join sep (x # y # ys) = x @ sep @ join sep (y # ys)"

text \<open>
  How an f-string prints a list of strings: the \<^verbatim>\<open>repr\<close> of every element, separated
  by a comma and a blank, between brackets. The \<^verbatim>\<open>repr\<close> of a string (its quoting and
  escaping) belongs to Python; it is the parameter \<open>repr_str\<close>.
\<close>

definition py_list_repr :: "(string \<Rightarrow> string) \<Rightarrow> string list \<Rightarrow> string" where
  "py_list_repr repr_str xs = ''['' @ join '', '' (map repr_str xs) @ '']''"

text \<open>\<^verbatim>\<open>ensure_name\<close>: the first candidate that is a column, else a \<^verbatim>\<open>KeyError\<close>.\<close>

definition ensure_name ::
  "(string \<Rightarrow> string) \<Rightarrow> table \<Rightarrow> string list \<Rightarrow> error + string" where
  "ensure_name repr_str df candidates =
     (case find_col candidates (columns df) of
        Some c \<Rightarrow> Inr c
      | None \<Rightarrow> Inl (KeyError (''None of the expected columns found in dataframe: ''
                                @ py_list_repr repr_str candidates)))"

definition id_aliases :: "string list" where
  "id_aliases = [''id'', ''node_id'', ''Id'', ''ID'']"

definition type_aliases :: "string list" where
  "type_aliases = [''type'', ''node_type'', ''Type'']"

definition source_aliases :: "string list" where
  "source_aliases = [''source_id'', ''source'', ''from'', ''From'']"

definition target_aliases :: "string list" where
  "target_aliases = [''target_id'', ''target'', ''to'', ''To'']"

definition rel_aliases :: "string list" where
  "rel_aliases = [''relationship_type'', ''rel_type'', ''type'', ''relationship'']"

subsection \<open>The directed graph of networkx\<close>

text \<open>
  \<^verbatim>\<open>nx.DiGraph\<close> keeps one attribute dictionary per node and one per ordered pair of
  nodes joined by an edge. \<^verbatim>\<open>add_node\<close> and \<^verbatim>\<open>add_edge\<close> on a node or pair already
  present update the dictionary that is there.
\<close>

record graph =
  nodes :: "(ustring \<times> attrs) list"
  edges :: "((ustring \<times> ustring) \<times> attrs) list"

definition empty_graph :: graph where
  "empty_graph = \<lparr>nodes = [], edges = []\<rparr>"

definition has_node :: "graph \<Rightarrow> ustring \<Rightarrow> bool" where
  "has_node G n = (map_of (nodes G) n \<noteq> None)"

definition nx_add_node :: "graph \<Rightarrow> ustring \<Rightarrow> attrs \<Rightarrow> graph" where
  "nx_add_node G n attr =
     (case map_of (nodes G) n of
        None \<Rightarrow> G\<lparr>nodes := nodes G @ [(n, attr)]\<rparr>
      | Some old \<Rightarrow> G\<lparr>nodes := AList.update n (dict_update old attr) (nodes G)\<rparr>)"

definition nx_add_edge :: "graph \<Rightarrow> ustring \<Rightarrow> ustring \<Rightarrow> attrs \<Rightarrow> graph" where
  "nx_add_edge G u v attr =
     (let G1 = (if has_node G u then G else nx_add_node G u []);
          G2 = (if has_node G1 v then G1 else nx_add_node G1 v []);
          old = (case map_of (edges G2) (u, v) of None \<Rightarrow> [] | Some d \<Rightarrow> d)
      in G2\<lparr>edges := AList.update (u, v) (dict_update old attr) (edges G2)\<rparr>)"

text \<open>
  The calls \<^verbatim>\<open>G.add_node(node_id, **attrs)\<close> and \<^verbatim>\<open>G.add_edge(src, tgt, **attrs)\<close>
  pass a dictionary built from column labels as keyword arguments. The methods are
  \<^verbatim>\<open>add_node(self, node_for_adding, **attr)\<close> and
  \<^verbatim>\<open>add_edge(self, u_of_edge, v_of_edge, **attr)\<close>: a key that is one of the named
  parameters makes Python raise \<^verbatim>\<open>TypeError\<close> before the method runs.
\<close>

definition kwargs_clash :: "string list \<Rightarrow> attrs \<Rightarrow> bool" where
  "kwargs_clash params attr = list_ex (\<lambda>p. p \<in> fst ` set attr) params"

definition nx_add_node_kw :: "graph \<Rightarrow> ustring \<Rightarrow> attrs \<Rightarrow> error + graph" where
  "nx_add_node_kw G n attr =
     (if kwargs_clash [''self'', ''node_for_adding''] attr then Inl TypeError
      else Inr (nx_add_node G n attr))"

definition nx_add_edge_kw :: "graph \<Rightarrow> ustring \<Rightarrow> ustring \<Rightarrow> attrs \<Rightarrow> error + graph" where
  "nx_add_edge_kw G u v attr =
     (if kwargs_clash [''self'', ''u_of_edge'', ''v_of_edge''] attr then Inl TypeError
      else Inr (nx_add_edge G u v attr))"

subsection \<open>\<^verbatim>\<open>build_graph\<close>\<close>

text \<open>A loop over rows whose body may raise: the first exception ends the loop.\<close>

fun fold_rows :: "(series \<Rightarrow> graph \<Rightarrow> error + graph) \<Rightarrow> series list \<Rightarrow> graph \<Rightarrow> error + graph" where
  "fold_rows f [] G = Inr G"
| "fold_rows f (row # rs) G = (case f row G of Inl e \<Rightarrow> Inl e | Inr G' \<Rightarrow> fold_rows f rs G')"

text \<open>
  The body of the loop over the rows of a node table. The test
  \<^verbatim>\<open>type_col and type_col in row.index\<close> fails for a column that is \<^verbatim>\<open>None\<close> and for
  one whose label is the empty string.
\<close>

definition add_node_row ::
  "(ustring \<Rightarrow> json option) \<Rightarrow> string \<Rightarrow> string option \<Rightarrow> series \<Rightarrow> graph \<Rightarrow> error + graph"
  where
  "add_node_row loads id_col type_col row G =
     (let node_id = py_str (cell_at row id_col);
          node_type = (case type_col of
                         Some tc \<Rightarrow> if tc \<noteq> [] \<and> tc \<in> set (index row) then Some (cell_at row tc)
                                   else None
                       | None \<Rightarrow> None);
          props = parse_properties_from_row loads row [Some id_col, type_col]
      in case map_of (nodes G) node_id of
           Some old \<Rightarrow>
             (let d1 = (if truthy node_type
                        then dict_setdefault old ''node_type'' (Cell (the node_type))
                        else old)
              in Inr (G\<lparr>nodes := AList.update node_id (dict_update d1 props) (nodes G)\<rparr>))
         | None \<Rightarrow>
             (let attrs0 = (if truthy node_type then [(''node_type'', Cell (the node_type))]
                            else [])
              in nx_add_node_kw G node_id (dict_update attrs0 props)))"

definition add_nodes_from_df ::
  "(ustring \<Rightarrow> json option) \<Rightarrow> graph \<Rightarrow> table option \<Rightarrow> string \<Rightarrow> error + graph" where
  "add_nodes_from_df loads G df source_label =
     (case df of
        None \<Rightarrow> Inr G
      | Some d \<Rightarrow>
          (case find_col id_aliases (columns d) of
             None \<Rightarrow> Inl (KeyError (''No id column found in '' @ source_label
                                     @ ''; expected one of id/node_id/Id/ID''))
           | Some id_col \<Rightarrow>
               (let type_col = find_col type_aliases (columns d)
                in fold_rows (add_node_row loads id_col type_col) (iterrows d) G)))"

text \<open>The keyword arguments of \<^verbatim>\<open>G.add_node(src, node_type="unknown", placeholder=True)\<close>.\<close>

definition placeholder_attrs :: attrs where
  "placeholder_attrs =
     [(''node_type'', Cell (Str (ustr ''unknown''))), (''placeholder'', Flag True)]"

text \<open>
  The body of the loop over the rows of the relation table, with the same test
  \<^verbatim>\<open>rel_col and rel_col in row.index\<close>.
\<close>

definition add_edge_row ::
  "(ustring \<Rightarrow> json option) \<Rightarrow> string \<Rightarrow> string \<Rightarrow> string option \<Rightarrow> series \<Rightarrow> graph
     \<Rightarrow> error + graph"
  where
  "add_edge_row loads s_col t_col rel_col row G =
     (let src = py_str (cell_at row s_col);
          tgt = py_str (cell_at row t_col);
          rel_type = (case rel_col of
                        Some rc \<Rightarrow> if rc \<noteq> [] \<and> rc \<in> set (index row) then cell_at row rc
                                   else Str (ustr ''RELATED_TO'')
                      | None \<Rightarrow> Str (ustr ''RELATED_TO''));
          edge_props = parse_properties_from_row loads row [Some s_col, Some t_col, rel_col];
          G1 = (if \<not> has_node G src then nx_add_node G src placeholder_attrs else G);
          G2 = (if \<not> has_node G1 tgt then nx_add_node G1 tgt placeholder_attrs else G1);
          attrs0 = dict_update [(''relationship'', Cell rel_type)] edge_props
      in nx_add_edge_kw G2 src tgt attrs0)"

definition add_relations ::
  "(ustring \<Rightarrow> json option) \<Rightarrow> graph \<Rightarrow> table option \<Rightarrow> error + graph" where
  "add_relations loads G relations_df =
     (case relations_df of
        None \<Rightarrow> Inr G
      | Some d \<Rightarrow>
          (let s_col = find_col source_aliases (columns d);
               t_col = find_col target_aliases (columns d)
           in if s_col = None \<or> t_col = None then
                Inl (KeyError ''Relations CSV must contain source and target columns (e.g. source_id, target_id)'')
              else
                (let rel_col = find_col rel_aliases (columns d)
                 in fold_rows (add_edge_row loads (the s_col) (the t_col) rel_col)
                      (iterrows d) G)))"

definition build_graph ::
  "(ustring \<Rightarrow> json option) \<Rightarrow> table option \<Rightarrow> table option \<Rightarrow> table option \<Rightarrow> error + graph"
  where
  "build_graph loads nodes_doc_df nodes_draw_df relations_df =
     (case add_nodes_from_df loads empty_graph nodes_doc_df ''nodes_doc'' of
        Inl e \<Rightarrow> Inl e
      | Inr G1 \<Rightarrow>
          (case add_nodes_from_df loads G1 nodes_draw_df ''nodes_draw'' of
             Inl e \<Rightarrow> Inl e
           | Inr G2 \<Rightarrow> add_relations loads G2 relations_df))"

subsection \<open>What one row does to the graph\<close>

text \<open>
  The values the loop bodies compute for a row: the type a node row supplies
  (\<^verbatim>\<open>node_type\<close>), the relation type and the attribute dictionary of a relation row
  (\<^verbatim>\<open>rel_type\<close>, \<^verbatim>\<open>attrs\<close>), and the graph each loop body leaves when no exception
  is raised.
\<close>

definition row_node_type :: "string option \<Rightarrow> series \<Rightarrow> cell option" where
  "row_node_type type_col row =
     (case type_col of
        Some tc \<Rightarrow> if tc \<noteq> [] \<and> tc \<in> set (index row) then Some (cell_at row tc)
                                   else None
      | None \<Rightarrow> None)"

definition row_node_attrs ::
  "(ustring \<Rightarrow> json option) \<Rightarrow> string \<Rightarrow> string option \<Rightarrow> series \<Rightarrow> attrs" where
  "row_node_attrs loads id_col type_col row =
     dict_update
       (if truthy (row_node_type type_col row)
        then [(''node_type'', Cell (the (row_node_type type_col row)))] else [])
       (parse_properties_from_row loads row [Some id_col, type_col])"

definition node_row_effect ::
  "(ustring \<Rightarrow> json option) \<Rightarrow> string \<Rightarrow> string option \<Rightarrow> series \<Rightarrow> graph \<Rightarrow> graph" where
  "node_row_effect loads id_col type_col row G =
     (case map_of (nodes G) (py_str (cell_at row id_col)) of
        Some old \<Rightarrow>
          G\<lparr>nodes := AList.update (py_str (cell_at row id_col))
                 (dict_update
                    (if truthy (row_node_type type_col row)
                     then dict_setdefault old ''node_type''
                            (Cell (the (row_node_type type_col row)))
                     else old)
                    (parse_properties_from_row loads row [Some id_col, type_col]))
                 (nodes G)\<rparr>
      | None \<Rightarrow>
          nx_add_node G (py_str (cell_at row id_col)) (row_node_attrs loads id_col type_col row))"

definition row_rel_type :: "string option \<Rightarrow> series \<Rightarrow> cell" where
  "row_rel_type rel_col row =
     (case rel_col of
        Some rc \<Rightarrow> if rc \<noteq> [] \<and> rc \<in> set (index row) then cell_at row rc
                   else Str (ustr ''RELATED_TO'')
      | None \<Rightarrow> Str (ustr ''RELATED_TO''))"

definition row_edge_attrs ::
  "(ustring \<Rightarrow> json option) \<Rightarrow> string \<Rightarrow> string \<Rightarrow> string option \<Rightarrow> series \<Rightarrow> attrs" where
  "row_edge_attrs loads s_col t_col rel_col row =
     dict_update [(''relationship'', Cell (row_rel_type rel_col row))]
       (parse_properties_from_row loads row [Some s_col, Some t_col, rel_col])"

definition edge_row_effect ::
  "(ustring \<Rightarrow> json option) \<Rightarrow> string \<Rightarrow> string \<Rightarrow> string option \<Rightarrow> series \<Rightarrow> graph \<Rightarrow> graph"
  where
  "edge_row_effect loads s_col t_col rel_col row G =
     (let src = py_str (cell_at row s_col);
          tgt = py_str (cell_at row t_col);
          G1 = (if \<not> has_node G src then nx_add_node G src placeholder_attrs else G);
          G2 = (if \<not> has_node G1 tgt then nx_add_node G1 tgt placeholder_attrs else G1)
      in nx_add_edge G2 src tgt (row_edge_attrs loads s_col t_col rel_col row))"


text \<open>The spec's reading of "bracket/brace-delimited".\<close>

definition bracket_delimited :: "ustring \<Rightarrow> bool" where
  "bracket_delimited s =
     (s \<noteq> [] \<and> ((hd s = of_char CHR ''{'' \<and> last s = of_char CHR ''}'') \<or>
                (hd s = of_char CHR ''['' \<and> last s = of_char CHR '']'')))"

text \<open>Whether the mandatory columns of a table resolve; an absent table needs none.\<close>

definition has_id_column :: "table option \<Rightarrow> bool" where
  "has_id_column df = (case df of None \<Rightarrow> True
                       | Some d \<Rightarrow> find_col id_aliases (columns d) \<noteq> None)"

definition has_endpoint_columns :: "table option \<Rightarrow> bool" where
  "has_endpoint_columns df =
     (case df of None \<Rightarrow> True
      | Some d \<Rightarrow> find_col source_aliases (columns d) \<noteq> None \<and>
                  find_col target_aliases (columns d) \<noteq> None)"

text \<open>Whether a table has a column of a given label, and whether none of its labels is a
  parameter name of the networkx call its rows end in.\<close>

definition has_column :: "table option \<Rightarrow> string \<Rightarrow> bool" where
  "has_column df k = (case df of None \<Rightarrow> False | Some d \<Rightarrow> k \<in> set (columns d))"

definition node_labels_ok :: "table option \<Rightarrow> bool" where
  "node_labels_ok df = (\<not> has_column df ''self'' \<and> \<not> has_column df ''node_for_adding'')"

definition edge_labels_ok :: "table option \<Rightarrow> bool" where
  "edge_labels_ok df =
     (\<not> has_column df ''self'' \<and> \<not> has_column df ''u_of_edge'' \<and> \<not> has_column df ''v_of_edge'')"

text \<open>The raw id cells of a node table and the raw endpoint cells of a relation table, read
  from the columns the aliases resolve to.\<close>

definition id_cells :: "table option \<Rightarrow> cell list" where
  "id_cells df =
     (case df of
        None \<Rightarrow> []
      | Some d \<Rightarrow> (case find_col id_aliases (columns d) of
                     None \<Rightarrow> []
                   | Some c \<Rightarrow> map (\<lambda>r. r c) (rows d)))"

definition endpoint_cells :: "table option \<Rightarrow> (cell \<times> cell) list" where
  "endpoint_cells df =
     (case df of
        None \<Rightarrow> []
      | Some d \<Rightarrow> (case (find_col source_aliases (columns d), find_col target_aliases (columns d)) of
                     (Some s, Some t) \<Rightarrow> map (\<lambda>r. (r s, r t)) (rows d)
                   | _ \<Rightarrow> []))"

subsection \<open>Example inputs\<close>

definition no_json :: "ustring \<Rightarrow> json option" where
  "no_json s = None"

text \<open>A decoder that knows one document and rejects every other string.\<close>

definition ex_loads :: "ustring \<Rightarrow> json option" where
  "ex_loads s = (if s = ustr ''[1, 2, 3]'' then Some (JArr [JNum 1, JNum 2, JNum 3]) else None)"

definition ex_nodes_a :: table where
  "ex_nodes_a = \<lparr>columns = [''id'', ''type'', ''name''],
     rows = [mk_row [(''id'', Str (ustr ''n1'')), (''type'', Str (ustr ''Part'')),
                     (''name'', Str (ustr ''Bolt''))]]\<rparr>"

definition ex_nodes_b :: table where
  "ex_nodes_b = \<lparr>columns = [''id'', ''type'', ''name''],
     rows = [mk_row [(''id'', Str (ustr ''n2'')), (''type'', Str (ustr ''Part'')),
                     (''name'', Str (ustr ''Nut''))]]\<rparr>"

definition ex_relations :: table where
  "ex_relations = \<lparr>columns = [''source_id'', ''target_id'', ''relationship_type''],
     rows = [mk_row [(''source_id'', Str (ustr ''n1'')), (''target_id'', Str (ustr ''n2'')),
                     (''relationship_type'', Str (ustr ''fastens''))],
             mk_row [(''source_id'', Str (ustr ''n1'')), (''target_id'', Str (ustr ''n3'')),
                     (''relationship_type'', Str (ustr ''refs''))]]\<rparr>"

definition ex_nodes_a_graph :: graph where
  "ex_nodes_a_graph = \<lparr>nodes =
       [(ustr ''n1'', [(''node_type'', Cell (Str (ustr ''Part''))), (''name'', Cell (Str (ustr ''Bolt'')))])],
     edges = []\<rparr>"

definition ex_nodes_graph :: graph where
  "ex_nodes_graph = \<lparr>nodes =
       [(ustr ''n1'', [(''node_type'', Cell (Str (ustr ''Part''))), (''name'', Cell (Str (ustr ''Bolt'')))]),
        (ustr ''n2'', [(''node_type'', Cell (Str (ustr ''Part''))), (''name'', Cell (Str (ustr ''Nut'')))])],
     edges = []\<rparr>"



definition ex_noted_graph :: graph where
  "ex_noted_graph = \<lparr>nodes =
       [(ustr ''n1'', [(''node_type'', Cell (Str (ustr ''Part''))), (''name'', Cell (Str (ustr ''Bolt'')))]),
        (ustr ''n2'', [(''node_type'', Cell (Str (ustr ''Part''))), (''name'', Cell (Str (ustr ''Nut'')))])],
     edges =
       [((ustr ''n1'', ustr ''n2''), [(''relationship'', Cell (Str (ustr ''fastens''))),
                                (''note'', Cell (Str (ustr ''tight'')))])]\<rparr>"





definition ex_parallel :: table where
  "ex_parallel = \<lparr>columns = [''source_id'', ''target_id'', ''relationship_type''],
     rows = [mk_row [(''source_id'', Str (ustr ''a'')), (''target_id'', Str (ustr ''b'')),
                     (''relationship_type'', Str (ustr ''x''))],
             mk_row [(''source_id'', Str (ustr ''a'')), (''target_id'', Str (ustr ''b'')),
                     (''relationship_type'', Str (ustr ''y''))]]\<rparr>"

definition ex_parallel_graph :: graph where
  "ex_parallel_graph = \<lparr>nodes =
       [(ustr ''a'', [(''node_type'', Cell (Str (ustr ''unknown''))), (''placeholder'', Flag True)]),
        (ustr ''b'', [(''node_type'', Cell (Str (ustr ''unknown''))), (''placeholder'', Flag True)])],
     edges = [((ustr ''a'', ustr ''b''), [(''relationship'', Cell (Str (ustr ''y'')))])]\<rparr>"

definition ex_row_n1_n2 :: series where
  "ex_row_n1_n2 = \<lparr>index = [''source_id'', ''target_id'', ''relationship_type'', ''torque''],
     cell_at = mk_row [(''source_id'', Str (ustr ''n1'')), (''target_id'', Str (ustr ''n2'')),
                       (''relationship_type'', Str (ustr ''holds'')), (''torque'', Num 12)]\<rparr>"

definition ex_row_n1_n2_after :: graph where
  "ex_row_n1_n2_after = \<lparr>nodes = nodes ex_noted_graph,
     edges =
       [((ustr ''n1'', ustr ''n2''), [(''relationship'', Cell (Str (ustr ''holds''))),
                                (''note'', Cell (Str (ustr ''tight''))),
                                (''torque'', Cell (Num 12))])]\<rparr>"

definition ex_row_qty :: series where
  "ex_row_qty = \<lparr>index = [''id'', ''qty''],
     cell_at = mk_row [(''id'', Str (ustr ''n1'')), (''qty'', Num 4)]\<rparr>"

definition ex_row_cells :: series where
  "ex_row_cells = \<lparr>index = [''id'', ''name'', ''note'', ''rev'', ''dims'', ''tags'', ''bad''],
     cell_at = mk_row [(''id'', Str (ustr ''n1'')), (''name'', Str (ustr '''')),
                       (''note'', Str (ustr ''   '')), (''dims'', Str (ustr '' [1, 2, 3] '')),
                       (''tags'', Str (ustr ''[1, 2,'')), (''bad'', Str (ustr ''[1, 2,]''))]\<rparr>"

text \<open>A value padded with no-break spaces (U+00A0) and an ideographic space (U+3000).\<close>

definition ex_row_nbsp :: series where
  "ex_row_nbsp = \<lparr>index = [''id'', ''dims''],
     cell_at = mk_row [(''id'', Str (ustr ''n1'')),
                       (''dims'', Str ([160, 12288] @ ustr ''[1, 2, 3]'' @ [160]))]\<rparr>"

definition ex_rel_blank :: table where
  "ex_rel_blank = \<lparr>columns = [''source_id'', ''target_id'', ''relationship_type''],
     rows = [mk_row [(''source_id'', Str (ustr ''a'')), (''target_id'', Str (ustr ''b'')),
                     (''relationship_type'', Str (ustr ''''))],
             mk_row [(''source_id'', Str (ustr ''a'')), (''target_id'', Str (ustr ''c''))]]\<rparr>"

definition ex_rel_blank_graph :: graph where
  "ex_rel_blank_graph = \<lparr>nodes =
       [(ustr ''a'', [(''node_type'', Cell (Str (ustr ''unknown''))), (''placeholder'', Flag True)]),
        (ustr ''b'', [(''node_type'', Cell (Str (ustr ''unknown''))), (''placeholder'', Flag True)]),
        (ustr ''c'', [(''node_type'', Cell (Str (ustr ''unknown''))), (''placeholder'', Flag True)])],
     edges = [((ustr ''a'', ustr ''b''), [(''relationship'', Cell (Str (ustr '''')))]),
              ((ustr ''a'', ustr ''c''), [(''relationship'', Cell NaN)])]\<rparr>"

definition ex_rel_plain :: table where
  "ex_rel_plain = \<lparr>columns = [''source'', ''target'', ''note''],
     rows = [mk_row [(''source'', Str (ustr ''a'')), (''target'', Str (ustr ''b'')),
                     (''note'', Str (ustr ''x''))],
             mk_row [(''source'', Str (ustr ''b'')), (''target'', Str (ustr ''a''))]]\<rparr>"

definition ex_rel_plain_graph :: graph where
  "ex_rel_plain_graph = \<lparr>nodes =
       [(ustr ''a'', [(''node_type'', Cell (Str (ustr ''unknown''))), (''placeholder'', Flag True)]),
        (ustr ''b'', [(''node_type'', Cell (Str (ustr ''unknown''))), (''placeholder'', Flag True)])],
     edges = [((ustr ''a'', ustr ''b''), [(''relationship'', Cell (Str (ustr ''RELATED_TO''))),
                                    (''note'', Cell (Str (ustr ''x'')))]),
              ((ustr ''b'', ustr ''a''), [(''relationship'', Cell (Str (ustr ''RELATED_TO'')))])]\<rparr>"

definition ex_row_blank_rel :: series where
  "ex_row_blank_rel = \<lparr>index = [''source_id'', ''target_id'', ''relationship_type''],
     cell_at = mk_row [(''source_id'', Str (ustr ''a'')), (''target_id'', Str (ustr ''b'')),
                       (''relationship_type'', Str (ustr ''''))]\<rparr>"

definition ex_row_blank_rel_after :: graph where
  "ex_row_blank_rel_after = \<lparr>nodes =
       [(ustr ''a'', [(''node_type'', Cell (Str (ustr ''unknown''))), (''placeholder'', Flag True)]),
        (ustr ''b'', [(''node_type'', Cell (Str (ustr ''unknown''))), (''placeholder'', Flag True)])],
     edges = [((ustr ''a'', ustr ''b''), [(''relationship'', Cell (Str (ustr '''')))])]\<rparr>"

text \<open>A relation row whose type column is \<^verbatim>\<open>type\<close> and which also has a property column
  called \<^verbatim>\<open>relationship\<close>.\<close>

definition ex_row_rel_prop :: series where
  "ex_row_rel_prop = \<lparr>index = [''source'', ''target'', ''type'', ''relationship''],
     cell_at = mk_row [(''source'', Str (ustr ''a'')), (''target'', Str (ustr ''b'')),
                       (''type'', Str (ustr ''x'')), (''relationship'', Str (ustr ''y''))]\<rparr>"

definition ex_row_rel_prop_after :: graph where
  "ex_row_rel_prop_after = \<lparr>nodes =
       [(ustr ''a'', [(''node_type'', Cell (Str (ustr ''unknown''))), (''placeholder'', Flag True)]),
        (ustr ''b'', [(''node_type'', Cell (Str (ustr ''unknown''))), (''placeholder'', Flag True)])],
     edges = [((ustr ''a'', ustr ''b''), [(''relationship'', Cell (Str (ustr ''y'')))])]\<rparr>"

definition ex_rel_nocols :: table where
  "ex_rel_nocols = \<lparr>columns = [''src'', ''dst''],
     rows = [mk_row [(''src'', Str (ustr ''a'')), (''dst'', Str (ustr ''b''))]]\<rparr>"

definition ex_rel_notarget :: table where
  "ex_rel_notarget = \<lparr>columns = [''source_id'', ''dst''],
     rows = [mk_row [(''source_id'', Str (ustr ''a'')), (''dst'', Str (ustr ''b''))]]\<rparr>"

definition ex_nodes_noid :: table where
  "ex_nodes_noid = \<lparr>columns = [''name'', ''type''],
     rows = [mk_row [(''name'', Str (ustr ''Nut'')), (''type'', Str (ustr ''Part''))]]\<rparr>"

definition ex_nodes_notype :: table where
  "ex_nodes_notype = \<lparr>columns = [''Id'', ''ID'', ''name''],
     rows = [mk_row [(''Id'', Str (ustr ''n7'')), (''ID'', Str (ustr ''other'')),
                     (''name'', Str (ustr ''Pin''))]]\<rparr>"

definition ex_nodes_notype_graph :: graph where
  "ex_nodes_notype_graph = \<lparr>nodes =
       [(ustr ''n7'', [(''ID'', Cell (Str (ustr ''other''))), (''name'', Cell (Str (ustr ''Pin'')))])],
     edges = []\<rparr>"

text \<open>A node table with a property column named like the parameter of \<^verbatim>\<open>add_node\<close>.\<close>

definition ex_nodes_kw :: table where
  "ex_nodes_kw = \<lparr>columns = [''id'', ''node_for_adding''],
     rows = [mk_row [(''id'', Str (ustr ''n1'')), (''node_for_adding'', Str (ustr ''x''))]]\<rparr>"

definition ex_nodes_mixed :: table where
  "ex_nodes_mixed = \<lparr>columns = [''id'', ''name''],
     rows = [mk_row [(''id'', Num 7), (''name'', Str (ustr ''a''))],
             mk_row [(''id'', Str (ustr ''7'')), (''name'', Str (ustr ''b''))],
             mk_row [(''name'', Str (ustr ''c''))]]\<rparr>"

definition ex_rel_mixed :: table where
  "ex_rel_mixed = \<lparr>columns = [''from'', ''to''],
     rows = [mk_row [(''from'', Num (- 12)), (''to'', Str (ustr ''7''))],
             mk_row [(''to'', Str (ustr ''nan''))]]\<rparr>"

definition ex_mixed_graph :: graph where
  "ex_mixed_graph = \<lparr>nodes =
       [(ustr ''7'', [(''name'', Cell (Str (ustr ''b'')))]),
        (ustr ''nan'', [(''name'', Cell (Str (ustr ''c'')))]),
        (ustr ''-12'', [(''node_type'', Cell (Str (ustr ''unknown''))), (''placeholder'', Flag True)])],
     edges =
       [((ustr ''-12'', ustr ''7''), [(''relationship'', Cell (Str (ustr ''RELATED_TO'')))]),
        ((ustr ''nan'', ustr ''nan''), [(''relationship'', Cell (Str (ustr ''RELATED_TO'')))])]\<rparr>"

definition ex_nodes_blank_type :: table where
  "ex_nodes_blank_type = \<lparr>columns = [''id'', ''type'', ''name''],
     rows = [mk_row [(''id'', Str (ustr ''X'')), (''name'', Str (ustr ''Bolt''))],
             mk_row [(''id'', Str (ustr ''X'')), (''type'', Str (ustr ''Part'')),
                     (''name'', Str (ustr ''Bolt M4''))]]\<rparr>"

definition ex_nodes_empty_type :: table where
  "ex_nodes_empty_type = \<lparr>columns = [''id'', ''type'', ''name''],
     rows = [mk_row [(''id'', Str (ustr ''X'')), (''type'', Str (ustr '''')), (''name'', Str (ustr ''Bolt''))],
             mk_row [(''id'', Str (ustr ''X'')), (''type'', Str (ustr ''Part'')),
                     (''name'', Str (ustr ''Bolt M4''))],
             mk_row [(''id'', Str (ustr ''X'')), (''type'', Str (ustr ''Tool''))]]\<rparr>"

section \<open>Properties\<close>

subsection \<open>Dictionaries and graph keys\<close>

lemma keys_dict_update: "fst ` set (dict_update d e) = fst ` set d \<union> fst ` set e"
  unfolding dict_update_def
proof (induction e arbitrary: d)
  case Nil
  show ?case by simp
next
  case (Cons p e)
  obtain k v where p: "p = (k, v)" by (cases p)
  show ?case by (simp add: p Cons.IH AList.dom_update)
qed

lemma distinct_dict_update:
  "distinct (map fst d) \<Longrightarrow> distinct (map fst (dict_update d e))"
  unfolding dict_update_def
  by (induction e arbitrary: d) (auto simp: AList.distinct_update)

lemma map_of_dict_update:
  "map_of (dict_update d e) = map_of d ++ map_of (rev e)"
  unfolding dict_update_def
proof (induction e arbitrary: d)
  case Nil
  then show ?case by simp
next
  case (Cons p e)
  obtain k v where p: "p = (k, v)" by (cases p)
  show ?case
    by (auto simp add: p Cons.IH AList.update_conv' fun_eq_iff map_add_def split: option.splits)
qed

lemma map_of_rev_distinct: "distinct (map fst e) \<Longrightarrow> map_of (rev e) = map_of e"
  by (subst map_of_inject_set) (simp_all add: rev_map [symmetric])

lemma map_of_dict_update_distinct:
  "distinct (map fst e) \<Longrightarrow> map_of (dict_update d e) = map_of d ++ map_of e"
  by (simp add: map_of_dict_update map_of_rev_distinct)

lemma dict_update_last_wins:
  "distinct (map fst e) \<Longrightarrow> map_of e k = Some v \<Longrightarrow> map_of (dict_update d e) k = Some v"
  by (simp add: map_of_dict_update_distinct)


lemma distinct_to_dict: "distinct (map fst (to_dict ps))"
  by (simp add: to_dict_def distinct_dict_update)

lemma has_node_iff: "has_node G n \<longleftrightarrow> n \<in> fst ` set (nodes G)"
  by (simp add: has_node_def map_of_eq_None_iff)

lemma node_keys_nx_add_node:
  "map fst (nodes (nx_add_node G n a)) =
     (if has_node G n then map fst (nodes G) else map fst (nodes G) @ [n])"
  by (auto simp: nx_add_node_def has_node_def AList.update_keys map_of_eq_None_iff
           split: option.splits dest: map_of_SomeD)

lemma edges_nx_add_node: "edges (nx_add_node G n a) = edges G"
  by (simp add: nx_add_node_def split: option.splits)

lemma has_node_nx_add_node: "has_node (nx_add_node G n a) m \<longleftrightarrow> m = n \<or> has_node G m"
proof -
  have "has_node (nx_add_node G n a) m \<longleftrightarrow> m \<in> set (map fst (nodes (nx_add_node G n a)))"
    by (simp add: has_node_iff)
  also have "\<dots> \<longleftrightarrow> m = n \<or> has_node G m"
    unfolding node_keys_nx_add_node by (auto simp: has_node_iff)
  finally show ?thesis .
qed


lemma node_keys_nx_add_edge:
  "map fst (nodes (nx_add_edge G u v a)) =
     (let ks = map fst (nodes G);
          ks1 = (if has_node G u then ks else ks @ [u])
      in if has_node G v \<or> v = u then ks1 else ks1 @ [v])"
  by (auto simp add: nx_add_edge_def Let_def node_keys_nx_add_node has_node_nx_add_node)

lemma edge_keys_nx_add_edge:
  "map fst (edges (nx_add_edge G u v a)) =
     (if (u, v) \<in> fst ` set (edges G) then map fst (edges G)
      else map fst (edges G) @ [(u, v)])"
  by (simp add: nx_add_edge_def Let_def edges_nx_add_node AList.update_keys)


lemma set_update_subset:
  "p \<in> set (AList.update k v al) \<Longrightarrow> p = (k, v) \<or> p \<in> set al"
  by (induction al) (auto split: if_splits)

subsection \<open>The loop bodies and the graphs they leave\<close>

lemma add_node_row_eq:
  "add_node_row loads ic tc row G =
     (if map_of (nodes G) (py_str (cell_at row ic)) = None \<and>
         kwargs_clash [''self'', ''node_for_adding''] (row_node_attrs loads ic tc row)
      then Inl TypeError
      else Inr (node_row_effect loads ic tc row G))"
  by (cases "map_of (nodes G) (py_str (cell_at row ic))")
     (simp_all add: add_node_row_def node_row_effect_def row_node_attrs_def row_node_type_def
        nx_add_node_kw_def Let_def)

lemma add_edge_row_eq:
  "add_edge_row loads sc tc rc row G =
     (if kwargs_clash [''self'', ''u_of_edge'', ''v_of_edge''] (row_edge_attrs loads sc tc rc row)
      then Inl TypeError
      else Inr (edge_row_effect loads sc tc rc row G))"
  by (simp add: add_edge_row_def edge_row_effect_def row_edge_attrs_def row_rel_type_def
        nx_add_edge_kw_def Let_def)

lemma add_node_row_Inr:
  "add_node_row loads ic tc row G = Inr G' \<Longrightarrow> G' = node_row_effect loads ic tc row G"
  by (simp add: add_node_row_eq split: if_splits)

lemma add_edge_row_Inr:
  "add_edge_row loads sc tc rc row G = Inr G' \<Longrightarrow> G' = edge_row_effect loads sc tc rc row G"
  by (simp add: add_edge_row_eq split: if_splits)

lemma add_node_row_Inl: "add_node_row loads ic tc row G = Inl e \<Longrightarrow> e = TypeError"
  by (simp add: add_node_row_eq split: if_splits)

lemma add_edge_row_Inl: "add_edge_row loads sc tc rc row G = Inl e \<Longrightarrow> e = TypeError"
  by (simp add: add_edge_row_eq split: if_splits)

lemma fold_rows_Inr:
  assumes "\<And>row G G'. f row G = Inr G' \<Longrightarrow> G' = g row G"
  shows "fold_rows f rs G = Inr G' \<Longrightarrow> G' = fold g rs G"
proof (induction rs arbitrary: G)
  case Nil
  then show ?case by simp
next
  case (Cons row rs)
  then obtain G1 where 1: "f row G = Inr G1" and 2: "fold_rows f rs G1 = Inr G'"
    by (auto split: sum.splits)
  from assms [OF 1] Cons.IH [OF 2] show ?case by simp
qed

lemma fold_rows_ok:
  assumes "\<And>row G. row \<in> set rs \<Longrightarrow> f row G = Inr (g row G)"
  shows "fold_rows f rs G = Inr (fold g rs G)"
  using assms by (induction rs arbitrary: G) simp_all

lemma fold_rows_Inl:
  assumes "\<And>row G e. f row G = Inl e \<Longrightarrow> e = TypeError"
  shows "fold_rows f rs G = Inl e \<Longrightarrow> e = TypeError"
proof (induction rs arbitrary: G)
  case Nil
  then show ?case by simp
next
  case (Cons row rs)
  show ?case
  proof (cases "f row G")
    case (Inl e')
    with Cons.prems assms show ?thesis by auto
  next
    case (Inr G1)
    with Cons.prems Cons.IH show ?thesis by auto
  qed
qed

lemma index_iterrows: "row \<in> set (iterrows d) \<Longrightarrow> index row = columns d"
  by (auto simp: iterrows_def)

lemma image_iterrows:
  "(\<lambda>row. f (cell_at row c)) ` set (iterrows d) = f ` set (map (\<lambda>r. r c) (rows d))"
  by (simp add: iterrows_def image_image)

lemma find_col_None_iff: "find_col cs cols = None \<longleftrightarrow> (\<forall>c\<in>set cs. c \<notin> set cols)"
  by (induction cs) auto

lemma find_col_SomeD: "find_col cs cols = Some c \<Longrightarrow> c \<in> set cs \<and> c \<in> set cols"
  by (induction cs) (auto split: if_splits)

lemma find_col_find: "find_col candidates cols = find (\<lambda>c. c \<in> set cols) candidates"
  by (induction candidates) simp_all

lemma add_nodes_from_df_SomeE:
  assumes "add_nodes_from_df loads G (Some d) lbl = Inr G'"
  obtains ic where
    "find_col id_aliases (columns d) = Some ic"
    "G' = fold (node_row_effect loads ic (find_col type_aliases (columns d))) (iterrows d) G"
proof -
  from assms obtain ic where ic: "find_col id_aliases (columns d) = Some ic"
    by (auto simp: add_nodes_from_df_def split: option.splits)
  with assms have
    "fold_rows (add_node_row loads ic (find_col type_aliases (columns d))) (iterrows d) G = Inr G'"
    by (simp add: add_nodes_from_df_def Let_def)
  then have "G' = fold (node_row_effect loads ic (find_col type_aliases (columns d))) (iterrows d) G"
    by (rule fold_rows_Inr [rotated]) (rule add_node_row_Inr)
  with ic that show ?thesis by blast
qed

lemma add_relations_SomeE:
  assumes "add_relations loads G (Some r) = Inr G'"
  obtains sc tc where
    "find_col source_aliases (columns r) = Some sc"
    "find_col target_aliases (columns r) = Some tc"
    "G' = fold (edge_row_effect loads sc tc (find_col rel_aliases (columns r))) (iterrows r) G"
proof -
  from assms obtain sc tc where
    sc: "find_col source_aliases (columns r) = Some sc" and
    tc: "find_col target_aliases (columns r) = Some tc"
    by (auto simp: add_relations_def Let_def split: if_splits)
  with assms have
    "fold_rows (add_edge_row loads sc tc (find_col rel_aliases (columns r))) (iterrows r) G = Inr G'"
    by (simp add: add_relations_def Let_def)
  then have "G' = fold (edge_row_effect loads sc tc (find_col rel_aliases (columns r))) (iterrows r) G"
    by (rule fold_rows_Inr [rotated]) (rule add_edge_row_Inr)
  with sc tc that show ?thesis by blast
qed

lemma build_graph_Inr:
  "build_graph loads d1 d2 r = Inr G \<longleftrightarrow>
     (\<exists>G1 G2. add_nodes_from_df loads empty_graph d1 ''nodes_doc'' = Inr G1 \<and>
        add_nodes_from_df loads G1 d2 ''nodes_draw'' = Inr G2 \<and>
        add_relations loads G2 r = Inr G)"
  by (auto simp: build_graph_def split: sum.splits)


subsection \<open>Node ids\<close>

lemma node_keys_node_row_effect:
  "map fst (nodes (node_row_effect loads ic tc row G)) =
     (if has_node G (py_str (cell_at row ic)) then map fst (nodes G)
      else map fst (nodes G) @ [py_str (cell_at row ic)])"
proof (cases "map_of (nodes G) (py_str (cell_at row ic))")
  case None
  then show ?thesis
    by (simp add: node_row_effect_def node_keys_nx_add_node has_node_def)
next
  case (Some old)
  then have "py_str (cell_at row ic) \<in> fst ` set (nodes G)"
    by (metis has_node_def has_node_iff option.distinct(1))
  with Some show ?thesis
    by (simp add: node_row_effect_def has_node_def AList.update_keys)
qed

lemma edges_node_row_effect: "edges (node_row_effect loads ic tc row G) = edges G"
  by (simp add: node_row_effect_def edges_nx_add_node split: option.splits)

lemma node_keys_edge_row_effect:
  "map fst (nodes (edge_row_effect loads sc tc rc row G)) =
     (let ks = map fst (nodes G); s = py_str (cell_at row sc); t = py_str (cell_at row tc);
          ks1 = (if has_node G s then ks else ks @ [s])
      in if has_node G t \<or> t = s then ks1 else ks1 @ [t])"
  by (auto simp add: edge_row_effect_def Let_def node_keys_nx_add_edge node_keys_nx_add_node
        has_node_nx_add_node)

lemma edge_keys_edge_row_effect:
  "map fst (edges (edge_row_effect loads sc tc rc row G)) =
     (let e = (py_str (cell_at row sc), py_str (cell_at row tc))
      in if e \<in> fst ` set (edges G) then map fst (edges G) else map fst (edges G) @ [e])"
  by (simp add: edge_row_effect_def Let_def edge_keys_nx_add_edge edges_nx_add_node)

lemma distinct_nodes_node_row_effect:
  "distinct (map fst (nodes G)) \<Longrightarrow>
   distinct (map fst (nodes (node_row_effect loads ic tc row G)))"
  by (simp add: node_keys_node_row_effect has_node_iff)

lemma distinct_nodes_edge_row_effect:
  "distinct (map fst (nodes G)) \<Longrightarrow>
   distinct (map fst (nodes (edge_row_effect loads sc tc rc row G)))"
  by (auto simp add: node_keys_edge_row_effect has_node_iff Let_def)

lemma distinct_nodes_fold_node_rows:
  "distinct (map fst (nodes G)) \<Longrightarrow>
   distinct (map fst (nodes (fold (node_row_effect loads ic tc) rs G)))"
  by (induction rs arbitrary: G) (simp_all add: distinct_nodes_node_row_effect)

lemma distinct_nodes_fold_edge_rows:
  "distinct (map fst (nodes G)) \<Longrightarrow>
   distinct (map fst (nodes (fold (edge_row_effect loads sc tc rc) rs G)))"
  by (induction rs arbitrary: G) (simp_all add: distinct_nodes_edge_row_effect)

lemma distinct_nodes_add_nodes_from_df:
  assumes "add_nodes_from_df loads G df lbl = Inr G'" "distinct (map fst (nodes G))"
  shows "distinct (map fst (nodes G'))"
proof (cases df)
  case None
  with assms show ?thesis by (simp add: add_nodes_from_df_def)
next
  case (Some d)
  with assms show ?thesis
    by (auto elim!: add_nodes_from_df_SomeE simp: distinct_nodes_fold_node_rows)
qed

lemma distinct_nodes_add_relations:
  assumes "add_relations loads G df = Inr G'" "distinct (map fst (nodes G))"
  shows "distinct (map fst (nodes G'))"
proof (cases df)
  case None
  with assms show ?thesis by (simp add: add_relations_def)
next
  case (Some d)
  with assms show ?thesis
    by (auto elim!: add_relations_SomeE simp: distinct_nodes_fold_edge_rows)
qed

lemma distinct_nodes_build_graph:
  "build_graph loads d1 d2 r = Inr G \<Longrightarrow> distinct (map fst (nodes G))"
proof -
  assume "build_graph loads d1 d2 r = Inr G"
  then obtain G1 G2 where
    1: "add_nodes_from_df loads empty_graph d1 ''nodes_doc'' = Inr G1" and
    2: "add_nodes_from_df loads G1 d2 ''nodes_draw'' = Inr G2" and
    3: "add_relations loads G2 r = Inr G"
    unfolding build_graph_Inr by blast
  have "distinct (map fst (nodes empty_graph))" by (simp add: empty_graph_def)
  from distinct_nodes_add_nodes_from_df [OF 1 this] have "distinct (map fst (nodes G1))" .
  from distinct_nodes_add_nodes_from_df [OF 2 this] have "distinct (map fst (nodes G2))" .
  from distinct_nodes_add_relations [OF 3 this] show ?thesis .
qed


subsection \<open>The property extractor\<close>

lemma map_of_functional:
  "\<forall>p\<in>set ps. snd p = f (fst p) \<Longrightarrow>
   map_of ps k = (if k \<in> fst ` set ps then Some (f k) else None)"
  by (induction ps) auto

lemma map_of_to_dict: "map_of (to_dict ps) = map_of (rev ps)"
  by (simp add: to_dict_def map_of_dict_update)

lemma map_of_surviving:
  "map_of (surviving row drops) k =
     (if k \<in> set (index row) \<and> Some k \<notin> set drops \<and> cell_at row k \<noteq> Str [] \<and>
         cell_at row k \<noteq> NaN
      then Some (cell_at row k) else None)"
proof -
  let ?L = "filter (\<lambda>(k, c). c \<noteq> Str [] \<and> c \<noteq> NaN)
        (map (\<lambda>k. (k, cell_at row k)) (filter (\<lambda>k. Some k \<notin> set drops) (index row)))"
  have f: "\<forall>p\<in>set (rev ?L). snd p = cell_at row (fst p)" by auto
  have k: "k \<in> fst ` set (rev ?L) \<longleftrightarrow>
        k \<in> set (index row) \<and> Some k \<notin> set drops \<and> cell_at row k \<noteq> Str [] \<and> cell_at row k \<noteq> NaN"
    by force
  show ?thesis
    unfolding surviving_def map_of_to_dict map_of_functional [OF f] k by simp
qed

lemma distinct_surviving: "distinct (map fst (surviving row drops))"
  by (simp add: surviving_def distinct_to_dict)

lemma keys_parse_properties:
  "map fst (parse_properties_from_row loads row drops) = map fst (surviving row drops)"
  by (simp add: parse_properties_from_row_def case_prod_beta)

lemma distinct_parse_properties:
  "distinct (map fst (parse_properties_from_row loads row drops))"
  by (simp add: keys_parse_properties distinct_surviving)

lemma map_of_parse_properties:
  "map_of (parse_properties_from_row loads row drops) k =
     map_option (decode_value loads) (map_of (surviving row drops) k)"
  by (simp add: parse_properties_from_row_def map_of_map)

lemma key_parse_properties_iff:
  "k \<in> fst ` set (parse_properties_from_row loads row drops) \<longleftrightarrow>
     k \<in> set (index row) \<and> Some k \<notin> set drops \<and> cell_at row k \<noteq> Str [] \<and> cell_at row k \<noteq> NaN"
proof -
  have "k \<in> fst ` set (parse_properties_from_row loads row drops) \<longleftrightarrow>
        map_of (parse_properties_from_row loads row drops) k \<noteq> None"
    by (simp add: map_of_eq_None_iff)
  then show ?thesis
    by (simp add: map_of_parse_properties map_of_surviving)
qed

lemma strip_spaces:
  assumes "\<forall>c\<in>set s. is_space c"
  shows "strip s = []"
proof -
  have d: "dropWhile is_space s = []"
    using assms by simp
  show ?thesis unfolding strip_def d by simp
qed

lemma startswith_iff: "startswith s c \<longleftrightarrow> s \<noteq> [] \<and> hd s = c"
  by (cases s) (simp_all add: startswith_def)

lemma endswith_iff: "endswith s c \<longleftrightarrow> s \<noteq> [] \<and> last s = c"
  by (cases s rule: rev_cases) (simp_all add: endswith_def)

lemma looks_structured_iff: "looks_structured s = bracket_delimited s"
  by (auto simp: looks_structured_def bracket_delimited_def startswith_iff endswith_iff)


lemma decode_value_Str:
  "decode_value loads (Str t) =
     (if bracket_delimited (strip t)
      then (case loads (strip t) of Some j \<Rightarrow> Json j | None \<Rightarrow> Cell (Str t))
      else Cell (Str t))"
  by (simp add: decode_value_def Let_def looks_structured_iff)

lemma decode_value_other: "\<forall>t. c \<noteq> Str t \<Longrightarrow> decode_value loads c = Cell c"
  by (cases c) (simp_all add: decode_value_def)

lemma not_bracket_delimited_Nil: "\<not> bracket_delimited []"
  by (simp add: bracket_delimited_def)

subsection \<open>Edges\<close>

lemma distinct_row_edge_attrs: "distinct (map fst (row_edge_attrs loads sc tc rc row))"
  by (simp add: row_edge_attrs_def distinct_dict_update)

lemma edges_fold_node_rows: "edges (fold (node_row_effect loads ic tc) rs G) = edges G"
  by (induction rs arbitrary: G) (simp_all add: edges_node_row_effect)

lemma edges_add_nodes_from_df:
  assumes "add_nodes_from_df loads G df lbl = Inr G'"
  shows "edges G' = edges G"
proof (cases df)
  case None
  with assms show ?thesis by (simp add: add_nodes_from_df_def)
next
  case (Some d)
  with assms show ?thesis
    by (auto elim!: add_nodes_from_df_SomeE simp: edges_fold_node_rows)
qed

lemma distinct_edges_edge_row_effect:
  "distinct (map fst (edges G)) \<Longrightarrow>
   distinct (map fst (edges (edge_row_effect loads sc tc rc row G)))"
  by (simp add: edge_keys_edge_row_effect Let_def)

lemma distinct_edges_fold_edge_rows:
  "distinct (map fst (edges G)) \<Longrightarrow>
   distinct (map fst (edges (fold (edge_row_effect loads sc tc rc) rs G)))"
  by (induction rs arbitrary: G) (simp_all add: distinct_edges_edge_row_effect)

lemma edge_keys_fold_edge_rows:
  "fst ` set (edges (fold (edge_row_effect loads sc tc rc) rs G)) =
     fst ` set (edges G) \<union> (\<lambda>row. (py_str (cell_at row sc), py_str (cell_at row tc))) ` set rs"
proof (induction rs arbitrary: G)
  case Nil
  show ?case by simp
next
  case (Cons row rs)
  have "set (map fst (edges (edge_row_effect loads sc tc rc row G))) =
          insert (py_str (cell_at row sc), py_str (cell_at row tc)) (set (map fst (edges G)))"
    unfolding edge_keys_edge_row_effect Let_def by auto
  then have "fst ` set (edges (edge_row_effect loads sc tc rc row G)) =
          insert (py_str (cell_at row sc), py_str (cell_at row tc)) (fst ` set (edges G))"
    by simp
  then show ?case by (simp add: Cons.IH)
qed

lemma edge_attrs_edge_row_effect:
  "map_of (edges (edge_row_effect loads sc tc rc row G))
       (py_str (cell_at row sc), py_str (cell_at row tc)) =
     Some (dict_update
             (case map_of (edges G) (py_str (cell_at row sc), py_str (cell_at row tc)) of
                None \<Rightarrow> [] | Some d \<Rightarrow> d)
             (row_edge_attrs loads sc tc rc row))"
  by (simp add: edge_row_effect_def Let_def nx_add_edge_def edges_nx_add_node AList.update_conv')


subsection \<open>Relation types\<close>

lemma edges_edge_row_effect:
  "edges (edge_row_effect loads sc tc rc row G) =
     AList.update (py_str (cell_at row sc), py_str (cell_at row tc))
       (dict_update
          (case map_of (edges G) (py_str (cell_at row sc), py_str (cell_at row tc)) of
             None \<Rightarrow> [] | Some d \<Rightarrow> d)
          (row_edge_attrs loads sc tc rc row))
       (edges G)"
  by (simp add: edge_row_effect_def Let_def nx_add_edge_def edges_nx_add_node)

lemma relationship_row_edge_attrs:
  assumes "''relationship'' \<notin> set (index row) \<or> Some ''relationship'' \<in> set [Some sc, Some tc, rc]"
  shows "map_of (row_edge_attrs loads sc tc rc row) ''relationship''
           = Some (Cell (row_rel_type rc row))"
proof -
  have "''relationship'' \<notin> fst ` set (parse_properties_from_row loads row [Some sc, Some tc, rc])"
    using assms unfolding key_parse_properties_iff by blast
  then have "map_of (parse_properties_from_row loads row [Some sc, Some tc, rc]) ''relationship''
               = None"
    by (simp add: map_of_eq_None_iff)
  then show ?thesis
    by (simp add: row_edge_attrs_def map_of_dict_update_distinct distinct_parse_properties
          map_add_def)
qed

lemma sentinel_edge_row_effect:
  assumes inv: "\<forall>p\<in>set (edges G). map_of (snd p) ''relationship'' = Some (Cell (Str (ustr ''RELATED_TO'')))"
    and col: "''relationship'' \<notin> set (index row)"
  shows "\<forall>p\<in>set (edges (edge_row_effect loads sc tc None row G)).
           map_of (snd p) ''relationship'' = Some (Cell (Str (ustr ''RELATED_TO'')))"
proof
  fix p
  assume "p \<in> set (edges (edge_row_effect loads sc tc None row G))"
  then consider
    "snd p = dict_update
          (case map_of (edges G) (py_str (cell_at row sc), py_str (cell_at row tc)) of
             None \<Rightarrow> [] | Some d \<Rightarrow> d)
          (row_edge_attrs loads sc tc None row)"
    | "p \<in> set (edges G)"
    unfolding edges_edge_row_effect by (auto dest: set_update_subset)
  then show "map_of (snd p) ''relationship'' = Some (Cell (Str (ustr ''RELATED_TO'')))"
  proof cases
    case 1
    have "map_of (row_edge_attrs loads sc tc None row) ''relationship''
            = Some (Cell (Str (ustr ''RELATED_TO'')))"
      using relationship_row_edge_attrs [of row sc tc None loads] col
      by (simp add: row_rel_type_def)
    then show ?thesis
      unfolding 1 by (rule dict_update_last_wins [OF distinct_row_edge_attrs])
  next
    case 2
    with inv show ?thesis by blast
  qed
qed

lemma sentinel_fold_edge_rows:
  "\<forall>p\<in>set (edges G). map_of (snd p) ''relationship'' = Some (Cell (Str (ustr ''RELATED_TO''))) \<Longrightarrow>
   \<forall>row\<in>set rs. ''relationship'' \<notin> set (index row) \<Longrightarrow>
   \<forall>p\<in>set (edges (fold (edge_row_effect loads sc tc None) rs G)).
      map_of (snd p) ''relationship'' = Some (Cell (Str (ustr ''RELATED_TO'')))"
proof (induction rs arbitrary: G)
  case Nil
  then show ?case by simp
next
  case (Cons row rs)
  have "\<forall>p\<in>set (edges (edge_row_effect loads sc tc None row G)).
           map_of (snd p) ''relationship'' = Some (Cell (Str (ustr ''RELATED_TO'')))"
    using Cons.prems by (intro sentinel_edge_row_effect) simp_all
  then show ?case
    using Cons.prems(2) by (simp add: Cons.IH)
qed


subsection \<open>Placeholder entities\<close>





subsection \<open>The ids stored in the graph\<close>

lemma node_ids_node_row_effect:
  "fst ` set (nodes (node_row_effect loads ic tc row G)) =
     insert (py_str (cell_at row ic)) (fst ` set (nodes G))"
proof -
  have "set (map fst (nodes (node_row_effect loads ic tc row G))) =
          insert (py_str (cell_at row ic)) (set (map fst (nodes G)))"
    unfolding node_keys_node_row_effect by (auto simp: has_node_iff)
  then show ?thesis by simp
qed

lemma node_ids_fold_node_rows:
  "fst ` set (nodes (fold (node_row_effect loads ic tc) rs G)) =
     fst ` set (nodes G) \<union> (\<lambda>row. py_str (cell_at row ic)) ` set rs"
  by (induction rs arbitrary: G) (simp_all add: node_ids_node_row_effect)

lemma node_ids_edge_row_effect:
  "fst ` set (nodes (edge_row_effect loads sc tc rc row G)) =
     insert (py_str (cell_at row sc)) (insert (py_str (cell_at row tc)) (fst ` set (nodes G)))"
proof -
  have "set (map fst (nodes (edge_row_effect loads sc tc rc row G))) =
     insert (py_str (cell_at row sc)) (insert (py_str (cell_at row tc)) (set (map fst (nodes G))))"
    unfolding node_keys_edge_row_effect Let_def by (auto simp: has_node_iff)
  then show ?thesis by simp
qed

lemma node_ids_fold_edge_rows:
  "fst ` set (nodes (fold (edge_row_effect loads sc tc rc) rs G)) =
     fst ` set (nodes G) \<union> (\<lambda>row. py_str (cell_at row sc)) ` set rs
       \<union> (\<lambda>row. py_str (cell_at row tc)) ` set rs"
  by (induction rs arbitrary: G) (simp_all add: node_ids_edge_row_effect, blast)

lemma node_ids_add_nodes_from_df:
  assumes "add_nodes_from_df loads G df lbl = Inr G'"
  shows "fst ` set (nodes G') = fst ` set (nodes G) \<union> py_str ` set (id_cells df)"
proof (cases df)
  case None
  with assms show ?thesis by (simp add: add_nodes_from_df_def id_cells_def)
next
  case (Some d)
  with assms obtain c where c: "find_col id_aliases (columns d) = Some c" and
    G': "G' = fold (node_row_effect loads c (find_col type_aliases (columns d))) (iterrows d) G"
    by (auto elim: add_nodes_from_df_SomeE)
  have "fst ` set (nodes G') =
      fst ` set (nodes G) \<union> (\<lambda>row. py_str (cell_at row c)) ` set (iterrows d)"
    unfolding G' by (simp add: node_ids_fold_node_rows)
  also have "(\<lambda>row. py_str (cell_at row c)) ` set (iterrows d) = py_str ` set (id_cells df)"
    unfolding image_iterrows by (simp add: id_cells_def Some c)
  finally show ?thesis .
qed

lemma endpoint_cells_Some:
  "find_col source_aliases (columns d) = Some sc \<Longrightarrow>
   find_col target_aliases (columns d) = Some tc \<Longrightarrow>
   endpoint_cells (Some d) = map (\<lambda>r. (r sc, r tc)) (rows d)"
  by (simp add: endpoint_cells_def)

lemma relations_ids:
  assumes "add_relations loads G df = Inr G'"
  shows "fst ` set (nodes G') = fst ` set (nodes G) \<union> py_str ` fst ` set (endpoint_cells df)
           \<union> py_str ` snd ` set (endpoint_cells df)"
    and "fst ` set (edges G') =
           fst ` set (edges G) \<union> (\<lambda>(s, t). (py_str s, py_str t)) ` set (endpoint_cells df)"
proof -
  have "fst ` set (nodes G') = fst ` set (nodes G) \<union> py_str ` fst ` set (endpoint_cells df)
           \<union> py_str ` snd ` set (endpoint_cells df) \<and>
        fst ` set (edges G') =
           fst ` set (edges G) \<union> (\<lambda>(s, t). (py_str s, py_str t)) ` set (endpoint_cells df)"
  proof (cases df)
    case None
    with assms show ?thesis by (simp add: add_relations_def endpoint_cells_def)
  next
    case (Some d)
    with assms obtain sc tc where
      sc: "find_col source_aliases (columns d) = Some sc" and
      tc: "find_col target_aliases (columns d) = Some tc" and
      G': "G' = fold (edge_row_effect loads sc tc (find_col rel_aliases (columns d))) (iterrows d) G"
      by (auto elim: add_relations_SomeE)
    have e: "endpoint_cells df = map (\<lambda>r. (r sc, r tc)) (rows d)"
      unfolding Some by (rule endpoint_cells_Some [OF sc tc])
    have 1: "(\<lambda>row. py_str (cell_at row sc)) ` set (iterrows d)
               = py_str ` fst ` set (endpoint_cells df)"
      unfolding image_iterrows e by (simp add: image_image)
    have 2: "(\<lambda>row. py_str (cell_at row tc)) ` set (iterrows d)
               = py_str ` snd ` set (endpoint_cells df)"
      unfolding image_iterrows e by (simp add: image_image)
    have 3: "(\<lambda>row. (py_str (cell_at row sc), py_str (cell_at row tc))) ` set (iterrows d)
               = (\<lambda>(s, t). (py_str s, py_str t)) ` set (endpoint_cells df)"
      unfolding e by (simp add: iterrows_def image_image)
    show ?thesis
      unfolding G' node_ids_fold_edge_rows edge_keys_fold_edge_rows 1 2 3 by simp
  qed
  then show "fst ` set (nodes G') = fst ` set (nodes G) \<union> py_str ` fst ` set (endpoint_cells df)
           \<union> py_str ` snd ` set (endpoint_cells df)"
    and "fst ` set (edges G') =
           fst ` set (edges G) \<union> (\<lambda>(s, t). (py_str s, py_str t)) ` set (endpoint_cells df)"
    by simp_all
qed


subsection \<open>Merging node rows\<close>







subsection \<open>Failure and success of the passes\<close>

lemma keys_parse_properties_subset:
  "fst ` set (parse_properties_from_row loads row drops) \<subseteq> set (index row)"
  using key_parse_properties_iff by blast

lemma keys_row_node_attrs:
  "fst ` set (row_node_attrs loads ic tc row) \<subseteq> insert ''node_type'' (set (index row))"
proof -
  have "fst ` set (row_node_attrs loads ic tc row) \<subseteq>
          insert ''node_type'' (fst ` set (parse_properties_from_row loads row [Some ic, tc]))"
    by (cases "truthy (row_node_type tc row)") (auto simp: row_node_attrs_def keys_dict_update)
  with keys_parse_properties_subset [of loads row "[Some ic, tc]"] show ?thesis by blast
qed

lemma keys_row_edge_attrs:
  "fst ` set (row_edge_attrs loads sc tc rc row) \<subseteq> insert ''relationship'' (set (index row))"
proof -
  have "fst ` set (row_edge_attrs loads sc tc rc row) \<subseteq>
          insert ''relationship''
            (fst ` set (parse_properties_from_row loads row [Some sc, Some tc, rc]))"
    by (simp add: row_edge_attrs_def keys_dict_update)
  with keys_parse_properties_subset [of loads row "[Some sc, Some tc, rc]"] show ?thesis by blast
qed

lemma add_node_row_ok:
  assumes "''self'' \<notin> set (index row)" "''node_for_adding'' \<notin> set (index row)"
  shows "add_node_row loads ic tc row G = Inr (node_row_effect loads ic tc row G)"
proof -
  have "\<not> kwargs_clash [''self'', ''node_for_adding''] (row_node_attrs loads ic tc row)"
    using assms keys_row_node_attrs [of loads ic tc row]
    by (auto simp: kwargs_clash_def)
  then show ?thesis by (simp add: add_node_row_eq)
qed

lemma add_edge_row_ok:
  assumes "''self'' \<notin> set (index row)" "''u_of_edge'' \<notin> set (index row)"
    "''v_of_edge'' \<notin> set (index row)"
  shows "add_edge_row loads sc tc rc row G = Inr (edge_row_effect loads sc tc rc row G)"
proof -
  have "\<not> kwargs_clash [''self'', ''u_of_edge'', ''v_of_edge''] (row_edge_attrs loads sc tc rc row)"
    using assms keys_row_edge_attrs [of loads sc tc rc row]
    by (auto simp: kwargs_clash_def)
  then show ?thesis by (simp add: add_edge_row_eq)
qed

lemma add_nodes_from_df_fail:
  "find_col id_aliases (columns d) = None \<Longrightarrow>
   add_nodes_from_df loads G (Some d) lbl =
     Inl (KeyError (''No id column found in '' @ lbl @ ''; expected one of id/node_id/Id/ID''))"
  by (simp add: add_nodes_from_df_def)

lemma add_nodes_from_df_resolved:
  "find_col id_aliases (columns d) = Some ic \<Longrightarrow>
   add_nodes_from_df loads G (Some d) lbl =
     fold_rows (add_node_row loads ic (find_col type_aliases (columns d))) (iterrows d) G"
  by (simp add: add_nodes_from_df_def Let_def)

lemma add_nodes_from_df_ok:
  assumes "has_id_column df" "node_labels_ok df"
  shows "\<exists>G'. add_nodes_from_df loads G df lbl = Inr G'"
proof (cases df)
  case None
  then show ?thesis by (simp add: add_nodes_from_df_def)
next
  case (Some d)
  with assms(1) obtain ic where ic: "find_col id_aliases (columns d) = Some ic"
    by (auto simp: has_id_column_def)
  have "fold_rows (add_node_row loads ic (find_col type_aliases (columns d))) (iterrows d) G =
          Inr (fold (node_row_effect loads ic (find_col type_aliases (columns d))) (iterrows d) G)"
  proof (rule fold_rows_ok)
    fix row G0
    assume "row \<in> set (iterrows d)"
    then have "index row = columns d" by (rule index_iterrows)
    with assms(2) Some show
      "add_node_row loads ic (find_col type_aliases (columns d)) row G0 =
         Inr (node_row_effect loads ic (find_col type_aliases (columns d)) row G0)"
      by (intro add_node_row_ok) (simp_all add: node_labels_ok_def has_column_def)
  qed
  then show ?thesis
    by (simp add: Some add_nodes_from_df_resolved [OF ic])
qed

lemma add_relations_fail:
  "find_col source_aliases (columns d) = None \<or> find_col target_aliases (columns d) = None \<Longrightarrow>
   add_relations loads G (Some d) =
     Inl (KeyError ''Relations CSV must contain source and target columns (e.g. source_id, target_id)'')"
  by (simp add: add_relations_def Let_def)

lemma add_relations_resolved:
  "find_col source_aliases (columns d) = Some sc \<Longrightarrow>
   find_col target_aliases (columns d) = Some tc \<Longrightarrow>
   add_relations loads G (Some d) =
     fold_rows (add_edge_row loads sc tc (find_col rel_aliases (columns d))) (iterrows d) G"
  by (simp add: add_relations_def Let_def)

lemma add_relations_ok:
  assumes "has_endpoint_columns df" "edge_labels_ok df"
  shows "\<exists>G'. add_relations loads G df = Inr G'"
proof (cases df)
  case None
  then show ?thesis by (simp add: add_relations_def)
next
  case (Some d)
  with assms(1) obtain sc tc where
    sc: "find_col source_aliases (columns d) = Some sc" and
    tc: "find_col target_aliases (columns d) = Some tc"
    by (auto simp: has_endpoint_columns_def)
  have "fold_rows (add_edge_row loads sc tc (find_col rel_aliases (columns d))) (iterrows d) G =
          Inr (fold (edge_row_effect loads sc tc (find_col rel_aliases (columns d))) (iterrows d) G)"
  proof (rule fold_rows_ok)
    fix row G0
    assume "row \<in> set (iterrows d)"
    then have "index row = columns d" by (rule index_iterrows)
    with assms(2) Some show
      "add_edge_row loads sc tc (find_col rel_aliases (columns d)) row G0 =
         Inr (edge_row_effect loads sc tc (find_col rel_aliases (columns d)) row G0)"
      by (intro add_edge_row_ok) (simp_all add: edge_labels_ok_def has_column_def)
  qed
  then show ?thesis
    by (simp add: Some add_relations_resolved [OF sc tc])
qed

lemma fold_node_rows_no_KeyError:
  "fold_rows (add_node_row loads ic tc) rs G \<noteq> Inl (KeyError m)"
  using fold_rows_Inl [of "add_node_row loads ic tc" rs G "KeyError m"] add_node_row_Inl
  by blast

lemma fold_edge_rows_no_KeyError:
  "fold_rows (add_edge_row loads sc tc rc) rs G \<noteq> Inl (KeyError m)"
  using fold_rows_Inl [of "add_edge_row loads sc tc rc" rs G "KeyError m"] add_edge_row_Inl
  by blast

lemma join_id_aliases: "join ''/'' id_aliases = ''id/node_id/Id/ID''"
  by (simp add: id_aliases_def)

subsection \<open>Claim C1: one entity per id\<close>




subsection \<open>Claim C2: a directed graph with one edge per ordered pair\<close>

text \<open>
  C2, as stated, fails: two relation rows for the same ordered pair with different relation
  types leave a single edge, carrying the relation type of the later row.
\<close>

theorem parallel_edges_counterexample:
  "build_graph no_json None None (Some ex_parallel) = Inr ex_parallel_graph \<and>
   length (rows ex_parallel) = 2 \<and> length (edges ex_parallel_graph) = 1"
  by code_simp

text \<open>
  C2, amended. The graph is directed and holds exactly one edge for every ordered
  (source, target) pair that occurs in the relation table: the edge keys are distinct and
  are the pairs of the rows' string-coerced endpoints. A relation row whose ordered pair is
  already joined adds no edge and leaves every other edge as it is; it is merged into the
  edge that is there: the edge's attributes afterwards are its earlier attributes
  overridden by the attributes of the row (relation type and properties), so an earlier
  attribute the row does not carry is kept and one it carries takes the row's value.
\<close>

theorem edges_one_per_ordered_pair:
  "(build_graph loads d1 d2 (Some r) = Inr G \<and>
    find_col source_aliases (columns r) = Some sc \<and>
    find_col target_aliases (columns r) = Some tc \<longrightarrow>
      distinct (map fst (edges G)) \<and>
      fst ` set (edges G) =
        (\<lambda>row. (py_str (cell_at row sc), py_str (cell_at row tc))) ` set (iterrows r)) \<and>
   (map_of (edges G0) (py_str (cell_at row sc'), py_str (cell_at row tc')) = Some old \<and>
    add_edge_row loads sc' tc' rc row G0 = Inr G' \<longrightarrow>
      map fst (edges G') = map fst (edges G0) \<and>
      (\<exists>a. map_of (edges G') (py_str (cell_at row sc'), py_str (cell_at row tc')) = Some a \<and>
           map_of a = map_of old ++ map_of (row_edge_attrs loads sc' tc' rc row) \<and>
           (\<forall>e. e \<noteq> (py_str (cell_at row sc'), py_str (cell_at row tc')) \<longrightarrow>
                map_of (edges G') e = map_of (edges G0) e)))"
proof (intro conjI impI)
  assume a: "build_graph loads d1 d2 (Some r) = Inr G \<and>
    find_col source_aliases (columns r) = Some sc \<and>
    find_col target_aliases (columns r) = Some tc"
  then obtain G1 G2 where
    1: "add_nodes_from_df loads empty_graph d1 ''nodes_doc'' = Inr G1" and
    2: "add_nodes_from_df loads G1 d2 ''nodes_draw'' = Inr G2" and
    3: "add_relations loads G2 (Some r) = Inr G"
    unfolding build_graph_Inr by blast
  have e2: "edges G2 = []"
    using edges_add_nodes_from_df [OF 1] edges_add_nodes_from_df [OF 2]
    by (simp add: empty_graph_def)
  have G: "G = fold (edge_row_effect loads sc tc (find_col rel_aliases (columns r))) (iterrows r) G2"
    using 3 a by (auto elim: add_relations_SomeE)
  show "distinct (map fst (edges G))"
    unfolding G by (rule distinct_edges_fold_edge_rows) (simp add: e2)
  show "fst ` set (edges G) =
        (\<lambda>row. (py_str (cell_at row sc), py_str (cell_at row tc))) ` set (iterrows r)"
    unfolding G edge_keys_fold_edge_rows by (simp add: e2)
next
  assume b: "map_of (edges G0) (py_str (cell_at row sc'), py_str (cell_at row tc')) = Some old \<and>
    add_edge_row loads sc' tc' rc row G0 = Inr G'"
  then have G': "G' = edge_row_effect loads sc' tc' rc row G0"
    by (simp add: add_edge_row_Inr)
  from b have "(py_str (cell_at row sc'), py_str (cell_at row tc')) \<in> fst ` set (edges G0)"
    by (metis map_of_eq_None_iff option.distinct(1))
  then show "map fst (edges G') = map fst (edges G0)"
    unfolding G' by (simp add: edge_keys_edge_row_effect Let_def)
  have o: "\<forall>e. e \<noteq> (py_str (cell_at row sc'), py_str (cell_at row tc')) \<longrightarrow>
                map_of (edges G') e = map_of (edges G0) e"
    unfolding G' edges_edge_row_effect by (simp add: AList.update_conv')
  from b have m: "map_of (edges G') (py_str (cell_at row sc'), py_str (cell_at row tc')) =
      Some (dict_update old (row_edge_attrs loads sc' tc' rc row))"
    unfolding G' edge_attrs_edge_row_effect by simp
  have n: "map_of (dict_update old (row_edge_attrs loads sc' tc' rc row)) =
             map_of old ++ map_of (row_edge_attrs loads sc' tc' rc row)"
    by (simp add: map_of_dict_update_distinct distinct_row_edge_attrs)
  show "\<exists>a. map_of (edges G') (py_str (cell_at row sc'), py_str (cell_at row tc')) = Some a \<and>
           map_of a = map_of old ++ map_of (row_edge_attrs loads sc' tc' rc row) \<and>
           (\<forall>e. e \<noteq> (py_str (cell_at row sc'), py_str (cell_at row tc')) \<longrightarrow>
                map_of (edges G') e = map_of (edges G0) e)"
    by (rule exI [of _ "dict_update old (row_edge_attrs loads sc' tc' rc row)"])
       (rule conjI, rule m, rule conjI, rule n, rule o)
qed

theorem edges_one_per_ordered_pair_witness:
  "(build_graph no_json None None (Some ex_parallel) = Inr ex_parallel_graph \<and>
    find_col source_aliases (columns ex_parallel) = Some ''source_id'' \<and>
    find_col target_aliases (columns ex_parallel) = Some ''target_id'') \<and>
   (distinct (map fst (edges ex_parallel_graph)) \<and>
    fst ` set (edges ex_parallel_graph) =
      (\<lambda>row. (py_str (cell_at row ''source_id''), py_str (cell_at row ''target_id'')))
        ` set (iterrows ex_parallel)) \<and>
   (map_of (edges ex_noted_graph)
      (py_str (cell_at ex_row_n1_n2 ''source_id''), py_str (cell_at ex_row_n1_n2 ''target_id''))
      = Some [(''relationship'', Cell (Str (ustr ''fastens''))),
              (''note'', Cell (Str (ustr ''tight'')))] \<and>
    add_edge_row no_json ''source_id'' ''target_id'' (Some ''relationship_type'') ex_row_n1_n2
      ex_noted_graph = Inr ex_row_n1_n2_after) \<and>
   (map fst (edges ex_row_n1_n2_after) = map fst (edges ex_noted_graph) \<and>
    (\<exists>a. map_of (edges ex_row_n1_n2_after)
            (py_str (cell_at ex_row_n1_n2 ''source_id''),
             py_str (cell_at ex_row_n1_n2 ''target_id'')) = Some a \<and>
         map_of a =
           map_of [(''relationship'', Cell (Str (ustr ''fastens''))),
                   (''note'', Cell (Str (ustr ''tight'')))] ++
           map_of (row_edge_attrs no_json ''source_id'' ''target_id''
                     (Some ''relationship_type'') ex_row_n1_n2) \<and>
         (\<forall>e. e \<noteq> (py_str (cell_at ex_row_n1_n2 ''source_id''),
                     py_str (cell_at ex_row_n1_n2 ''target_id'')) \<longrightarrow>
              map_of (edges ex_row_n1_n2_after) e = map_of (edges ex_noted_graph) e))) \<and>
   row_edge_attrs no_json ''source_id'' ''target_id'' (Some ''relationship_type'') ex_row_n1_n2
     = [(''relationship'', Cell (Str (ustr ''holds''))), (''torque'', Cell (Num 12))] \<and>
   map_of (edges ex_row_n1_n2_after) (ustr ''n1'', ustr ''n2'') =
     Some [(''relationship'', Cell (Str (ustr ''holds''))),
           (''note'', Cell (Str (ustr ''tight''))), (''torque'', Cell (Num 12))]"
proof -
  have h1: "build_graph no_json None None (Some ex_parallel) = Inr ex_parallel_graph \<and>
    find_col source_aliases (columns ex_parallel) = Some ''source_id'' \<and>
    find_col target_aliases (columns ex_parallel) = Some ''target_id''"
    by code_simp
  have h2: "map_of (edges ex_noted_graph)
      (py_str (cell_at ex_row_n1_n2 ''source_id''), py_str (cell_at ex_row_n1_n2 ''target_id''))
      = Some [(''relationship'', Cell (Str (ustr ''fastens''))),
              (''note'', Cell (Str (ustr ''tight'')))] \<and>
    add_edge_row no_json ''source_id'' ''target_id'' (Some ''relationship_type'') ex_row_n1_n2
      ex_noted_graph = Inr ex_row_n1_n2_after"
    by code_simp
  have v1: "row_edge_attrs no_json ''source_id'' ''target_id'' (Some ''relationship_type'')
              ex_row_n1_n2
     = [(''relationship'', Cell (Str (ustr ''holds''))), (''torque'', Cell (Num 12))]"
    by code_simp
  have v2: "map_of (edges ex_row_n1_n2_after) (ustr ''n1'', ustr ''n2'') =
     Some [(''relationship'', Cell (Str (ustr ''holds''))),
           (''note'', Cell (Str (ustr ''tight''))), (''torque'', Cell (Num 12))]"
    by code_simp
  note th = edges_one_per_ordered_pair [of no_json None None ex_parallel ex_parallel_graph
      "''source_id''" "''target_id''" ex_noted_graph ex_row_n1_n2 "''source_id''" "''target_id''"
      "[(''relationship'', Cell (Str (ustr ''fastens''))), (''note'', Cell (Str (ustr ''tight'')))]"
      "Some ''relationship_type''" ex_row_n1_n2_after]
  note c1 = th [THEN conjunct1, THEN mp, OF h1]
  note c2 = th [THEN conjunct2, THEN mp, OF h2]
  show ?thesis
    by (rule conjI [OF h1 conjI [OF c1 conjI [OF h2 conjI [OF c2 conjI [OF v1 v2]]]]])
qed

subsection \<open>Claim C3: placeholder entities\<close>



subsection \<open>Claim C4: first type wins, last property wins\<close>

text \<open>
  C4 against the code. A node table read from a file whose first row for the id \<^verbatim>\<open>X\<close> has
  a blank type field and whose second row gives the type \<^verbatim>\<open>Part\<close>: the blank field is
  the missing-value marker NaN, which the test \<^verbatim>\<open>if node_type:\<close> takes for a type. The
  entity's type is NaN and stays so, where the claim asks for \<^verbatim>\<open>Part\<close>, the first type
  that is not absent; the properties follow the claim (the later name wins). With an
  empty string in place of the blank field the code does what the claim says, and a third
  row's type does not replace \<^verbatim>\<open>Part\<close>.
\<close>

theorem blank_type_taken_as_type:
  "build_graph no_json (Some ex_nodes_blank_type) None None =
     Inr \<lparr>nodes = [(ustr ''X'', [(''node_type'', Cell NaN),
                                  (''name'', Cell (Str (ustr ''Bolt M4'')))])],
          edges = []\<rparr> \<and>
   build_graph no_json (Some ex_nodes_empty_type) None None =
     Inr \<lparr>nodes = [(ustr ''X'', [(''name'', Cell (Str (ustr ''Bolt M4''))),
                                  (''node_type'', Cell (Str (ustr ''Part'')))])],
          edges = []\<rparr>"
  by code_simp

subsection \<open>Claim C5: the relation-type sentinel\<close>

lemma relationship_row_edge_attrs_value:
  "map_of (row_edge_attrs loads sc tc rc row) ''relationship'' =
     (if ''relationship'' \<in> set (index row) \<and> Some ''relationship'' \<notin> set [Some sc, Some tc, rc] \<and>
         cell_at row ''relationship'' \<noteq> Str [] \<and> cell_at row ''relationship'' \<noteq> NaN
      then Some (decode_value loads (cell_at row ''relationship''))
      else Some (Cell (row_rel_type rc row)))"
  by (simp add: row_edge_attrs_def map_of_dict_update_distinct distinct_parse_properties
        map_add_def map_of_parse_properties map_of_surviving)

text \<open>
  C5, as stated, fails in its second half: with a relation-type column present, a row whose
  cell is empty or missing yields an edge whose relation type is that empty string or NaN,
  not the sentinel.
\<close>

theorem empty_relation_cell_counterexample:
  "build_graph no_json None None (Some ex_rel_blank) = Inr ex_rel_blank_graph \<and>
   map_of (edges ex_rel_blank_graph) (ustr ''a'', ustr ''b'') =
     Some [(''relationship'', Cell (Str (ustr '''')))] \<and>
   map_of (edges ex_rel_blank_graph) (ustr ''a'', ustr ''c'') =
     Some [(''relationship'', Cell NaN)]"
  by code_simp

text \<open>
  C5, amended. When the relation table has no column from the relation-type alias list,
  every edge of the graph has the relation type \<^verbatim>\<open>RELATED_TO\<close>. When the relation-type
  column resolves, the edge written for a row carries the row's raw cell as its relation
  type, also when that cell is the empty string or missing: no per-row default applies.
  There is one exception: the relation type is stored under the attribute key
  \<^verbatim>\<open>relationship\<close>, and the row's properties are written over it, so when the row has a
  column labelled \<^verbatim>\<open>relationship\<close> that is not the source, target or relation-type
  column and whose cell is neither empty nor missing, the extracted value of that column
  takes the place of the relation type.
\<close>

theorem relation_type_default:
  "(build_graph loads d1 d2 (Some r) = Inr G \<and> find_col rel_aliases (columns r) = None \<longrightarrow>
      list_all (\<lambda>p. map_of (snd p) ''relationship'' = Some (Cell (Str (ustr ''RELATED_TO''))))
        (edges G)) \<and>
   (rc \<noteq> [] \<and> rc \<in> set (index row) \<and> add_edge_row loads sc tc (Some rc) row G0 = Inr G' \<longrightarrow>
      (\<exists>a. map_of (edges G') (py_str (cell_at row sc), py_str (cell_at row tc)) = Some a \<and>
            map_of a ''relationship'' =
              (if ''relationship'' \<in> set (index row) \<and> ''relationship'' \<notin> set [sc, tc, rc] \<and>
                  cell_at row ''relationship'' \<noteq> Str [] \<and> cell_at row ''relationship'' \<noteq> NaN
               then Some (decode_value loads (cell_at row ''relationship''))
               else Some (Cell (cell_at row rc)))))"
proof (intro conjI impI)
  assume a: "build_graph loads d1 d2 (Some r) = Inr G \<and> find_col rel_aliases (columns r) = None"
  then obtain G1 G2 where
    1: "add_nodes_from_df loads empty_graph d1 ''nodes_doc'' = Inr G1" and
    2: "add_nodes_from_df loads G1 d2 ''nodes_draw'' = Inr G2" and
    3: "add_relations loads G2 (Some r) = Inr G"
    unfolding build_graph_Inr by blast
  have e2: "edges G2 = []"
    using edges_add_nodes_from_df [OF 1] edges_add_nodes_from_df [OF 2]
    by (simp add: empty_graph_def)
  from 3 a obtain sc' tc' where
    G: "G = fold (edge_row_effect loads sc' tc' None) (iterrows r) G2"
    by (auto elim: add_relations_SomeE)
  have "\<forall>c\<in>set rel_aliases. c \<notin> set (columns r)"
    using a by (simp add: find_col_None_iff)
  moreover have "''relationship'' \<in> set rel_aliases"
    by (simp add: rel_aliases_def)
  ultimately have "''relationship'' \<notin> set (columns r)"
    by blast
  then have cols: "\<forall>row\<in>set (iterrows r). ''relationship'' \<notin> set (index row)"
    by (simp add: index_iterrows)
  have "\<forall>p\<in>set (edges G).
          map_of (snd p) ''relationship'' = Some (Cell (Str (ustr ''RELATED_TO'')))"
    unfolding G by (rule sentinel_fold_edge_rows [OF _ cols]) (simp add: e2)
  then show "list_all (\<lambda>p. map_of (snd p) ''relationship'' = Some (Cell (Str (ustr ''RELATED_TO''))))
        (edges G)"
    by (simp add: list_all_iff)
next
  assume b: "rc \<noteq> [] \<and> rc \<in> set (index row) \<and>
    add_edge_row loads sc tc (Some rc) row G0 = Inr G'"
  then have G': "G' = edge_row_effect loads sc tc (Some rc) row G0"
    by (simp add: add_edge_row_Inr)
  let ?old = "case map_of (edges G0) (py_str (cell_at row sc), py_str (cell_at row tc)) of
                None \<Rightarrow> [] | Some d \<Rightarrow> d"
  let ?a = "dict_update ?old (row_edge_attrs loads sc tc (Some rc) row)"
  have m: "map_of (edges G') (py_str (cell_at row sc), py_str (cell_at row tc)) = Some ?a"
    unfolding G' by (rule edge_attrs_edge_row_effect)
  from b have t: "row_rel_type (Some rc) row = cell_at row rc"
    by (simp add: row_rel_type_def)
  have v: "map_of ?a ''relationship'' =
              (if ''relationship'' \<in> set (index row) \<and> ''relationship'' \<notin> set [sc, tc, rc] \<and>
                  cell_at row ''relationship'' \<noteq> Str [] \<and> cell_at row ''relationship'' \<noteq> NaN
               then Some (decode_value loads (cell_at row ''relationship''))
               else Some (Cell (cell_at row rc)))"
    by (simp add: map_of_dict_update_distinct distinct_row_edge_attrs map_add_def
          relationship_row_edge_attrs_value t)
  show "\<exists>a. map_of (edges G') (py_str (cell_at row sc), py_str (cell_at row tc)) = Some a \<and>
            map_of a ''relationship'' =
              (if ''relationship'' \<in> set (index row) \<and> ''relationship'' \<notin> set [sc, tc, rc] \<and>
                  cell_at row ''relationship'' \<noteq> Str [] \<and> cell_at row ''relationship'' \<noteq> NaN
               then Some (decode_value loads (cell_at row ''relationship''))
               else Some (Cell (cell_at row rc)))"
    by (rule exI [of _ ?a]) (rule conjI, rule m, rule v)
qed

theorem relation_type_default_witness:
  "(build_graph no_json None None (Some ex_rel_plain) = Inr ex_rel_plain_graph \<and>
    find_col rel_aliases (columns ex_rel_plain) = None) \<and>
   list_all (\<lambda>p. map_of (snd p) ''relationship'' = Some (Cell (Str (ustr ''RELATED_TO''))))
     (edges ex_rel_plain_graph) \<and>
   (''relationship_type'' \<noteq> [] \<and> ''relationship_type'' \<in> set (index ex_row_blank_rel) \<and>
    add_edge_row no_json ''source_id'' ''target_id'' (Some ''relationship_type'')
      ex_row_blank_rel empty_graph = Inr ex_row_blank_rel_after) \<and>
   (\<exists>a. map_of (edges ex_row_blank_rel_after) (ustr ''a'', ustr ''b'') = Some a \<and>
         map_of a ''relationship'' = Some (Cell (Str []))) \<and>
   (''type'' \<noteq> [] \<and> ''type'' \<in> set (index ex_row_rel_prop) \<and>
    add_edge_row no_json ''source'' ''target'' (Some ''type'') ex_row_rel_prop empty_graph =
      Inr ex_row_rel_prop_after) \<and>
   (\<exists>a. map_of (edges ex_row_rel_prop_after) (ustr ''a'', ustr ''b'') = Some a \<and>
         map_of a ''relationship'' = Some (Cell (Str (ustr ''y''))))"
proof -
  have b: "build_graph no_json None None (Some ex_rel_plain) = Inr ex_rel_plain_graph \<and>
    find_col rel_aliases (columns ex_rel_plain) = None"
    by code_simp
  have i: "''relationship_type'' \<noteq> [] \<and> ''relationship_type'' \<in> set (index ex_row_blank_rel) \<and>
    add_edge_row no_json ''source_id'' ''target_id'' (Some ''relationship_type'')
      ex_row_blank_rel empty_graph = Inr ex_row_blank_rel_after"
    by code_simp
  have j: "''type'' \<noteq> [] \<and> ''type'' \<in> set (index ex_row_rel_prop) \<and>
    add_edge_row no_json ''source'' ''target'' (Some ''type'') ex_row_rel_prop empty_graph =
      Inr ex_row_rel_prop_after"
    by code_simp
  have ki: "py_str (cell_at ex_row_blank_rel ''source_id'') = ustr ''a'' \<and>
    py_str (cell_at ex_row_blank_rel ''target_id'') = ustr ''b''"
    by code_simp
  have kj: "py_str (cell_at ex_row_rel_prop ''source'') = ustr ''a'' \<and>
    py_str (cell_at ex_row_rel_prop ''target'') = ustr ''b''"
    by code_simp
  have vi: "(if ''relationship'' \<in> set (index ex_row_blank_rel) \<and>
                ''relationship'' \<notin> set [''source_id'', ''target_id'', ''relationship_type''] \<and>
                cell_at ex_row_blank_rel ''relationship'' \<noteq> Str [] \<and>
                cell_at ex_row_blank_rel ''relationship'' \<noteq> NaN
             then Some (decode_value no_json (cell_at ex_row_blank_rel ''relationship''))
             else Some (Cell (cell_at ex_row_blank_rel ''relationship_type'')))
            = Some (Cell (Str []))"
    by code_simp
  have vj: "(if ''relationship'' \<in> set (index ex_row_rel_prop) \<and>
                ''relationship'' \<notin> set [''source'', ''target'', ''type''] \<and>
                cell_at ex_row_rel_prop ''relationship'' \<noteq> Str [] \<and>
                cell_at ex_row_rel_prop ''relationship'' \<noteq> NaN
             then Some (decode_value no_json (cell_at ex_row_rel_prop ''relationship''))
             else Some (Cell (cell_at ex_row_rel_prop ''type'')))
            = Some (Cell (Str (ustr ''y'')))"
    by code_simp
  note 1 = relation_type_default [of no_json None None ex_rel_plain ex_rel_plain_graph,
      THEN conjunct1, THEN mp, OF b]
  note 2 = relation_type_default [of no_json None None ex_rel_plain ex_rel_plain_graph
      "''relationship_type''" ex_row_blank_rel "''source_id''" "''target_id''" empty_graph
      ex_row_blank_rel_after, THEN conjunct2, THEN mp, OF i, unfolded vi ki [THEN conjunct1]
      ki [THEN conjunct2]]
  note 3 = relation_type_default [of no_json None None ex_rel_plain ex_rel_plain_graph
      "''type''" ex_row_rel_prop "''source''" "''target''" empty_graph
      ex_row_rel_prop_after, THEN conjunct2, THEN mp, OF j, unfolded vj kj [THEN conjunct1]
      kj [THEN conjunct2]]
  show ?thesis
    by (rule conjI [OF b conjI [OF 1 conjI [OF i conjI [OF 2 conjI [OF j 3]]]]])
qed

subsection \<open>Claim C6: empty cells carry no property\<close>

text \<open>
  C6, as stated, fails: a cell holding only blanks is kept as a property, while the
  empty-string cell and the missing cell of the same row are dropped.
\<close>

theorem whitespace_cell_counterexample:
  "parse_properties_from_row no_json ex_row_cells [Some ''id'', None] =
     [(''note'', Cell (Str (ustr ''   ''))), (''dims'', Cell (Str (ustr '' [1, 2, 3] ''))),
      (''tags'', Cell (Str (ustr ''[1, 2,''))), (''bad'', Cell (Str (ustr ''[1, 2,]'')))]"
  by code_simp

text \<open>
  C6, amended. For every row, a column whose cell is the empty string or is missing
  contributes no key to the extracted property mapping. A cell that consists entirely of
  white space (one character or more) is not treated as empty: its column, when not a
  structural one, contributes its key with the raw string as value. Node rows and relation
  rows go through the same extractor, so both behave alike.
\<close>

theorem empty_or_missing_cells_dropped:
  "(cell_at row k = Str [] \<or> cell_at row k = NaN \<longrightarrow>
      k \<notin> fst ` set (parse_properties_from_row loads row drop_cols)) \<and>
   (k \<in> set (index row) \<and> Some k \<notin> set drop_cols \<and> cell_at row k = Str s \<and> s \<noteq> [] \<and>
    list_all is_space s \<longrightarrow>
      map_of (parse_properties_from_row loads row drop_cols) k = Some (Cell (Str s)))"
proof (intro conjI impI)
  assume "cell_at row k = Str [] \<or> cell_at row k = NaN"
  then show "k \<notin> fst ` set (parse_properties_from_row loads row drop_cols)"
    unfolding key_parse_properties_iff by blast
next
  assume a: "k \<in> set (index row) \<and> Some k \<notin> set drop_cols \<and> cell_at row k = Str s \<and> s \<noteq> [] \<and>
    list_all is_space s"
  then have "strip s = []" by (simp add: strip_spaces list_all_iff)
  then have "decode_value loads (Str s) = Cell (Str s)"
    by (simp add: decode_value_Str not_bracket_delimited_Nil)
  with a show "map_of (parse_properties_from_row loads row drop_cols) k = Some (Cell (Str s))"
    by (simp add: map_of_parse_properties map_of_surviving)
qed

theorem empty_or_missing_cells_dropped_witness:
  "(cell_at ex_row_cells ''name'' = Str [] \<or> cell_at ex_row_cells ''name'' = NaN) \<and>
   ''name'' \<notin> fst ` set (parse_properties_from_row no_json ex_row_cells [Some ''id'', None]) \<and>
   (cell_at ex_row_cells ''rev'' = Str [] \<or> cell_at ex_row_cells ''rev'' = NaN) \<and>
   ''rev'' \<notin> fst ` set (parse_properties_from_row no_json ex_row_cells [Some ''id'', None]) \<and>
   (''note'' \<in> set (index ex_row_cells) \<and> Some ''note'' \<notin> set [Some ''id'', None] \<and>
    cell_at ex_row_cells ''note'' = Str (ustr ''   '') \<and> ustr ''   '' \<noteq> [] \<and>
    list_all is_space (ustr ''   '')) \<and>
   map_of (parse_properties_from_row no_json ex_row_cells [Some ''id'', None]) ''note''
     = Some (Cell (Str (ustr ''   '')))"
proof -
  have n: "cell_at ex_row_cells ''name'' = Str [] \<or> cell_at ex_row_cells ''name'' = NaN"
    by code_simp
  have r: "cell_at ex_row_cells ''rev'' = Str [] \<or> cell_at ex_row_cells ''rev'' = NaN"
    by code_simp
  have w: "''note'' \<in> set (index ex_row_cells) \<and> Some ''note'' \<notin> set [Some ''id'', None] \<and>
    cell_at ex_row_cells ''note'' = Str (ustr ''   '') \<and> ustr ''   '' \<noteq> [] \<and>
    list_all is_space (ustr ''   '')"
    by code_simp
  note 1 = empty_or_missing_cells_dropped
      [of ex_row_cells "''name''" no_json "[Some ''id'', None]", THEN conjunct1, THEN mp, OF n]
  note 2 = empty_or_missing_cells_dropped
      [of ex_row_cells "''rev''" no_json "[Some ''id'', None]", THEN conjunct1, THEN mp, OF r]
  note 3 = empty_or_missing_cells_dropped
      [of ex_row_cells "''note''" no_json "[Some ''id'', None]" "ustr ''   ''",
       THEN conjunct2, THEN mp, OF w]
  show ?thesis
    by (rule conjI [OF n conjI [OF 1 conjI [OF r conjI [OF 2 conjI [OF w 3]]]]])
qed

subsection \<open>Claim C7: best-effort decoding of structured values\<close>

text \<open>
  C7. The test the extractor applies to the trimmed value is the bracket/brace test of the
  spec. For every string cell that survives the filtering, the value is decoded only when
  its trimmed form is delimited by matching braces or brackets, where trimming removes
  every leading and trailing character that Python counts as white space (the no-break
  space and the other Unicode spaces included); when the decoder succeeds its result
  replaces the string, when it raises the original (untrimmed) string is kept, and a value
  that is not delimited is kept whatever the decoder would do with it. A surviving cell
  that is not a string passes through unchanged. The extractor is a total function without
  an error result: the decoder's exception is absorbed and nothing else in it can raise.
\<close>

theorem structured_decoding_best_effort:
  "(looks_structured u \<longleftrightarrow> bracket_delimited u) \<and>
   (k \<in> set (index row) \<and> Some k \<notin> set drop_cols \<and> cell_at row k = Str t \<and> t \<noteq> [] \<longrightarrow>
      map_of (parse_properties_from_row loads row drop_cols) k =
        Some (if bracket_delimited (strip t)
              then (case loads (strip t) of Some j \<Rightarrow> Json j | None \<Rightarrow> Cell (Str t))
              else Cell (Str t))) \<and>
   (k \<in> set (index row) \<and> Some k \<notin> set drop_cols \<and> cell_at row k = Num i \<longrightarrow>
      map_of (parse_properties_from_row loads row drop_cols) k = Some (Cell (Num i)))"
  by (simp add: looks_structured_iff map_of_parse_properties map_of_surviving decode_value_Str
        decode_value_other)

theorem structured_decoding_best_effort_witness:
  "(''dims'' \<in> set (index ex_row_cells) \<and> Some ''dims'' \<notin> set [Some ''id'', None] \<and>
    cell_at ex_row_cells ''dims'' = Str (ustr '' [1, 2, 3] '') \<and> ustr '' [1, 2, 3] '' \<noteq> []) \<and>
   map_of (parse_properties_from_row ex_loads ex_row_cells [Some ''id'', None]) ''dims''
     = Some (Json (JArr [JNum 1, JNum 2, JNum 3])) \<and>
   (''dims'' \<in> set (index ex_row_nbsp) \<and> Some ''dims'' \<notin> set [Some ''id'', None] \<and>
    cell_at ex_row_nbsp ''dims'' = Str ([160, 12288] @ ustr ''[1, 2, 3]'' @ [160]) \<and>
    [160, 12288] @ ustr ''[1, 2, 3]'' @ [160] \<noteq> []) \<and>
   map_of (parse_properties_from_row ex_loads ex_row_nbsp [Some ''id'', None]) ''dims''
     = Some (Json (JArr [JNum 1, JNum 2, JNum 3])) \<and>
   (''bad'' \<in> set (index ex_row_cells) \<and> Some ''bad'' \<notin> set [Some ''id'', None] \<and>
    cell_at ex_row_cells ''bad'' = Str (ustr ''[1, 2,]'') \<and> ustr ''[1, 2,]'' \<noteq> []) \<and>
   map_of (parse_properties_from_row ex_loads ex_row_cells [Some ''id'', None]) ''bad''
     = Some (Cell (Str (ustr ''[1, 2,]''))) \<and>
   (''tags'' \<in> set (index ex_row_cells) \<and> Some ''tags'' \<notin> set [Some ''id'', None] \<and>
    cell_at ex_row_cells ''tags'' = Str (ustr ''[1, 2,'') \<and> ustr ''[1, 2,'' \<noteq> []) \<and>
   map_of (parse_properties_from_row ex_loads ex_row_cells [Some ''id'', None]) ''tags''
     = Some (Cell (Str (ustr ''[1, 2,''))) \<and>
   (''qty'' \<in> set (index ex_row_qty) \<and> Some ''qty'' \<notin> set [Some ''id'', None] \<and>
    cell_at ex_row_qty ''qty'' = Num 4) \<and>
   map_of (parse_properties_from_row ex_loads ex_row_qty [Some ''id'', None]) ''qty''
     = Some (Cell (Num 4))"
proof -
  have d: "''dims'' \<in> set (index ex_row_cells) \<and> Some ''dims'' \<notin> set [Some ''id'', None] \<and>
    cell_at ex_row_cells ''dims'' = Str (ustr '' [1, 2, 3] '') \<and> ustr '' [1, 2, 3] '' \<noteq> []"
    by code_simp
  have n: "''dims'' \<in> set (index ex_row_nbsp) \<and> Some ''dims'' \<notin> set [Some ''id'', None] \<and>
    cell_at ex_row_nbsp ''dims'' = Str ([160, 12288] @ ustr ''[1, 2, 3]'' @ [160]) \<and>
    [160, 12288] @ ustr ''[1, 2, 3]'' @ [160] \<noteq> []"
    by code_simp
  have b: "''bad'' \<in> set (index ex_row_cells) \<and> Some ''bad'' \<notin> set [Some ''id'', None] \<and>
    cell_at ex_row_cells ''bad'' = Str (ustr ''[1, 2,]'') \<and> ustr ''[1, 2,]'' \<noteq> []"
    by code_simp
  have t: "''tags'' \<in> set (index ex_row_cells) \<and> Some ''tags'' \<notin> set [Some ''id'', None] \<and>
    cell_at ex_row_cells ''tags'' = Str (ustr ''[1, 2,'') \<and> ustr ''[1, 2,'' \<noteq> []"
    by code_simp
  have q: "''qty'' \<in> set (index ex_row_qty) \<and> Some ''qty'' \<notin> set [Some ''id'', None] \<and>
    cell_at ex_row_qty ''qty'' = Num 4"
    by code_simp
  have vd: "(if bracket_delimited (strip (ustr '' [1, 2, 3] ''))
             then (case ex_loads (strip (ustr '' [1, 2, 3] '')) of
                     Some j \<Rightarrow> Json j | None \<Rightarrow> Cell (Str (ustr '' [1, 2, 3] '')))
             else Cell (Str (ustr '' [1, 2, 3] ''))) = Json (JArr [JNum 1, JNum 2, JNum 3])"
    by code_simp
  have vn: "(if bracket_delimited (strip ([160, 12288] @ ustr ''[1, 2, 3]'' @ [160]))
             then (case ex_loads (strip ([160, 12288] @ ustr ''[1, 2, 3]'' @ [160])) of
                     Some j \<Rightarrow> Json j
                   | None \<Rightarrow> Cell (Str ([160, 12288] @ ustr ''[1, 2, 3]'' @ [160])))
             else Cell (Str ([160, 12288] @ ustr ''[1, 2, 3]'' @ [160])))
            = Json (JArr [JNum 1, JNum 2, JNum 3])"
    by code_simp
  have vb: "(if bracket_delimited (strip (ustr ''[1, 2,]''))
             then (case ex_loads (strip (ustr ''[1, 2,]'')) of
                     Some j \<Rightarrow> Json j | None \<Rightarrow> Cell (Str (ustr ''[1, 2,]'')))
             else Cell (Str (ustr ''[1, 2,]''))) = Cell (Str (ustr ''[1, 2,]''))"
    by code_simp
  have vt: "(if bracket_delimited (strip (ustr ''[1, 2,''))
             then (case ex_loads (strip (ustr ''[1, 2,'')) of
                     Some j \<Rightarrow> Json j | None \<Rightarrow> Cell (Str (ustr ''[1, 2,'')))
             else Cell (Str (ustr ''[1, 2,''))) = Cell (Str (ustr ''[1, 2,''))"
    by code_simp
  note 1 = structured_decoding_best_effort
      [of "[]" "''dims''" ex_row_cells "[Some ''id'', None]" "ustr '' [1, 2, 3] ''" ex_loads 0,
       THEN conjunct2, THEN conjunct1, THEN mp, OF d, unfolded vd]
  note 2 = structured_decoding_best_effort
      [of "[]" "''dims''" ex_row_nbsp "[Some ''id'', None]"
          "[160, 12288] @ ustr ''[1, 2, 3]'' @ [160]" ex_loads 0,
       THEN conjunct2, THEN conjunct1, THEN mp, OF n, unfolded vn]
  note 3 = structured_decoding_best_effort
      [of "[]" "''bad''" ex_row_cells "[Some ''id'', None]" "ustr ''[1, 2,]''" ex_loads 0,
       THEN conjunct2, THEN conjunct1, THEN mp, OF b, unfolded vb]
  note 4 = structured_decoding_best_effort
      [of "[]" "''tags''" ex_row_cells "[Some ''id'', None]" "ustr ''[1, 2,''" ex_loads 0,
       THEN conjunct2, THEN conjunct1, THEN mp, OF t, unfolded vt]
  note 5 = structured_decoding_best_effort
      [of "[]" "''qty''" ex_row_qty "[Some ''id'', None]" "[]" ex_loads 4,
       THEN conjunct2, THEN conjunct2, THEN mp, OF q]
  show ?thesis
    by (rule conjI [OF d conjI [OF 1 conjI [OF n conjI [OF 2 conjI [OF b conjI [OF 3
          conjI [OF t conjI [OF 4 conjI [OF q 5]]]]]]]]])
qed

subsection \<open>Claim C8: column resolution\<close>

text \<open>
  C8, as stated, fails for the relation table: the error raised when the source or the
  target column is missing is one fixed message, the same whichever of the two is missing,
  and it holds only the example names \<^verbatim>\<open>source_id\<close> and \<^verbatim>\<open>target_id\<close>, not the
  candidate lists (the aliases \<^verbatim>\<open>from\<close> and \<^verbatim>\<open>To\<close> do not occur in it).
\<close>

theorem relation_error_counterexample:
  "build_graph no_json None None (Some ex_rel_nocols) =
     Inl (KeyError ''Relations CSV must contain source and target columns (e.g. source_id, target_id)'') \<and>
   build_graph no_json None None (Some ex_rel_notarget) =
     Inl (KeyError ''Relations CSV must contain source and target columns (e.g. source_id, target_id)'') \<and>
   \<not> sublist ''from''
       ''Relations CSV must contain source and target columns (e.g. source_id, target_id)'' \<and>
   \<not> sublist ''To''
       ''Relations CSV must contain source and target columns (e.g. source_id, target_id)''"
  by code_simp

text \<open>
  C8, amended. For every table and logical field, column resolution returns the first alias
  of the fixed priority list that is present among the table's columns. When no alias
  matches the node id, the pass over that table fails with a \<^verbatim>\<open>KeyError\<close> whose message
  names the table's label, the id field and all four id aliases. When no alias matches the
  relation source or the relation target, the pass fails with a \<^verbatim>\<open>KeyError\<close> carrying one
  fixed message about source and target columns. When the mandatory columns resolve, the
  pass is the loop over the rows with the resolved columns, whether or not the optional
  node-type or relation-type column resolves (an unresolved one is absent): it raises no
  \<^verbatim>\<open>KeyError\<close>, and it succeeds when no column of the table is labelled like a
  parameter of the networkx call the rows are handed to (\<^verbatim>\<open>self\<close>,
  \<^verbatim>\<open>node_for_adding\<close> for a node table; \<^verbatim>\<open>self\<close>, \<^verbatim>\<open>u_of_edge\<close>,
  \<^verbatim>\<open>v_of_edge\<close> for the relation table), the only failure left being the
  \<^verbatim>\<open>TypeError\<close> of such a label. The helper \<^verbatim>\<open>ensure_name\<close> returns the same first
  alias and otherwise fails with a \<^verbatim>\<open>KeyError\<close> whose message ends with the list of all
  its candidates.
\<close>

theorem column_resolution:
  "find_col candidates cols = find (\<lambda>c. c \<in> set cols) candidates \<and>
   (find_col id_aliases (columns d) = None \<longrightarrow>
      add_nodes_from_df loads G (Some d) lbl =
        Inl (KeyError (''No id column found in '' @ lbl @ ''; expected one of ''
                       @ join ''/'' id_aliases))) \<and>
   (find_col source_aliases (columns d) = None \<or> find_col target_aliases (columns d) = None \<longrightarrow>
      add_relations loads G (Some d) =
        Inl (KeyError ''Relations CSV must contain source and target columns (e.g. source_id, target_id)'')) \<and>
   (find_col id_aliases (columns d) = Some ic \<longrightarrow>
      add_nodes_from_df loads G (Some d) lbl =
        fold_rows (add_node_row loads ic (find_col type_aliases (columns d))) (iterrows d) G \<and>
      add_nodes_from_df loads G (Some d) lbl \<noteq> Inl (KeyError m) \<and>
      (node_labels_ok (Some d) \<longrightarrow> (\<exists>G'. add_nodes_from_df loads G (Some d) lbl = Inr G'))) \<and>
   (find_col source_aliases (columns d) = Some sc \<and> find_col target_aliases (columns d) = Some tc \<longrightarrow>
      add_relations loads G (Some d) =
        fold_rows (add_edge_row loads sc tc (find_col rel_aliases (columns d))) (iterrows d) G \<and>
      add_relations loads G (Some d) \<noteq> Inl (KeyError m) \<and>
      (edge_labels_ok (Some d) \<longrightarrow> (\<exists>G'. add_relations loads G (Some d) = Inr G'))) \<and>
   ensure_name repr_str d candidates =
     (case find (\<lambda>c. c \<in> set (columns d)) candidates of
        Some c \<Rightarrow> Inr c
      | None \<Rightarrow> Inl (KeyError (''None of the expected columns found in dataframe: [''
                                @ join '', '' (map repr_str candidates) @ '']'')))"
proof (intro conjI impI)
  show "find_col candidates cols = find (\<lambda>c. c \<in> set cols) candidates"
    by (rule find_col_find)
next
  assume "find_col id_aliases (columns d) = None"
  then show "add_nodes_from_df loads G (Some d) lbl =
        Inl (KeyError (''No id column found in '' @ lbl @ ''; expected one of ''
                       @ join ''/'' id_aliases))"
    by (simp add: add_nodes_from_df_fail join_id_aliases)
next
  assume "find_col source_aliases (columns d) = None \<or> find_col target_aliases (columns d) = None"
  then show "add_relations loads G (Some d) =
        Inl (KeyError ''Relations CSV must contain source and target columns (e.g. source_id, target_id)'')"
    by (rule add_relations_fail)
next
  assume ic: "find_col id_aliases (columns d) = Some ic"
  show "add_nodes_from_df loads G (Some d) lbl =
        fold_rows (add_node_row loads ic (find_col type_aliases (columns d))) (iterrows d) G"
    by (rule add_nodes_from_df_resolved [OF ic])
  show "add_nodes_from_df loads G (Some d) lbl \<noteq> Inl (KeyError m)"
    unfolding add_nodes_from_df_resolved [OF ic] by (rule fold_node_rows_no_KeyError)
next
  assume ic: "find_col id_aliases (columns d) = Some ic" and ok: "node_labels_ok (Some d)"
  from ic have "has_id_column (Some d)" by (simp add: has_id_column_def)
  from add_nodes_from_df_ok [OF this ok]
  show "\<exists>G'. add_nodes_from_df loads G (Some d) lbl = Inr G'" .
next
  assume st: "find_col source_aliases (columns d) = Some sc \<and>
    find_col target_aliases (columns d) = Some tc"
  then have r: "add_relations loads G (Some d) =
        fold_rows (add_edge_row loads sc tc (find_col rel_aliases (columns d))) (iterrows d) G"
    by (simp add: add_relations_resolved)
  show "add_relations loads G (Some d) =
        fold_rows (add_edge_row loads sc tc (find_col rel_aliases (columns d))) (iterrows d) G"
    by (rule r)
  show "add_relations loads G (Some d) \<noteq> Inl (KeyError m)"
    unfolding r by (rule fold_edge_rows_no_KeyError)
next
  assume st: "find_col source_aliases (columns d) = Some sc \<and>
    find_col target_aliases (columns d) = Some tc" and ok: "edge_labels_ok (Some d)"
  from st have "has_endpoint_columns (Some d)" by (simp add: has_endpoint_columns_def)
  from add_relations_ok [OF this ok]
  show "\<exists>G'. add_relations loads G (Some d) = Inr G'" .
next
  show "ensure_name repr_str d candidates =
     (case find (\<lambda>c. c \<in> set (columns d)) candidates of
        Some c \<Rightarrow> Inr c
      | None \<Rightarrow> Inl (KeyError (''None of the expected columns found in dataframe: [''
                                @ join '', '' (map repr_str candidates) @ '']'')))"
    by (simp add: ensure_name_def find_col_find py_list_repr_def split: option.splits)
qed

theorem column_resolution_witness:
  "find_col id_aliases (columns ex_nodes_notype) = Some ''Id'' \<and>
   find_col id_aliases (columns ex_nodes_notype) =
     find (\<lambda>c. c \<in> set (columns ex_nodes_notype)) id_aliases \<and>
   find_col type_aliases (columns ex_nodes_notype) = None \<and>
   add_nodes_from_df no_json empty_graph (Some ex_nodes_notype) ''nodes_doc'' =
     fold_rows (add_node_row no_json ''Id'' (find_col type_aliases (columns ex_nodes_notype)))
       (iterrows ex_nodes_notype) empty_graph \<and>
   node_labels_ok (Some ex_nodes_notype) \<and>
   (\<exists>G'. add_nodes_from_df no_json empty_graph (Some ex_nodes_notype) ''nodes_doc'' = Inr G') \<and>
   add_nodes_from_df no_json empty_graph (Some ex_nodes_notype) ''nodes_doc'' =
     Inr ex_nodes_notype_graph \<and>
   find_col id_aliases (columns ex_nodes_kw) = Some ''id'' \<and>
   add_nodes_from_df no_json empty_graph (Some ex_nodes_kw) ''nodes_doc'' \<noteq> Inl (KeyError []) \<and>
   add_nodes_from_df no_json empty_graph (Some ex_nodes_kw) ''nodes_doc'' = Inl TypeError \<and>
   find_col id_aliases (columns ex_nodes_noid) = None \<and>
   add_nodes_from_df no_json empty_graph (Some ex_nodes_noid) ''nodes_draw'' =
     Inl (KeyError (''No id column found in '' @ ''nodes_draw'' @ ''; expected one of ''
                    @ join ''/'' id_aliases)) \<and>
   ''No id column found in '' @ ''nodes_draw'' @ ''; expected one of '' @ join ''/'' id_aliases =
     ''No id column found in nodes_draw; expected one of id/node_id/Id/ID'' \<and>
   (find_col source_aliases (columns ex_rel_notarget) = None \<or>
    find_col target_aliases (columns ex_rel_notarget) = None) \<and>
   add_relations no_json empty_graph (Some ex_rel_notarget) =
     Inl (KeyError ''Relations CSV must contain source and target columns (e.g. source_id, target_id)'') \<and>
   (find_col source_aliases (columns ex_rel_plain) = Some ''source'' \<and>
    find_col target_aliases (columns ex_rel_plain) = Some ''target'') \<and>
   find_col rel_aliases (columns ex_rel_plain) = None \<and>
   edge_labels_ok (Some ex_rel_plain) \<and>
   (\<exists>G'. add_relations no_json empty_graph (Some ex_rel_plain) = Inr G') \<and>
   add_relations no_json empty_graph (Some ex_rel_plain) = Inr ex_rel_plain_graph"
proof -
  have i: "find_col id_aliases (columns ex_nodes_notype) = Some ''Id''" by code_simp
  have ty: "find_col type_aliases (columns ex_nodes_notype) = None" by code_simp
  have ok: "node_labels_ok (Some ex_nodes_notype)" by code_simp
  have g: "add_nodes_from_df no_json empty_graph (Some ex_nodes_notype) ''nodes_doc'' =
     Inr ex_nodes_notype_graph"
    by code_simp
  have k: "find_col id_aliases (columns ex_nodes_kw) = Some ''id''" by code_simp
  have kt: "add_nodes_from_df no_json empty_graph (Some ex_nodes_kw) ''nodes_doc'' = Inl TypeError"
    by code_simp
  have n: "find_col id_aliases (columns ex_nodes_noid) = None" by code_simp
  have j: "''No id column found in '' @ ''nodes_draw'' @ ''; expected one of '' @ join ''/'' id_aliases
            = ''No id column found in nodes_draw; expected one of id/node_id/Id/ID''"
    by code_simp
  have t: "find_col source_aliases (columns ex_rel_notarget) = None \<or>
    find_col target_aliases (columns ex_rel_notarget) = None"
    by code_simp
  have st: "find_col source_aliases (columns ex_rel_plain) = Some ''source'' \<and>
    find_col target_aliases (columns ex_rel_plain) = Some ''target''"
    by code_simp
  have r: "find_col rel_aliases (columns ex_rel_plain) = None" by code_simp
  have eok: "edge_labels_ok (Some ex_rel_plain)" by code_simp
  have e: "add_relations no_json empty_graph (Some ex_rel_plain) = Inr ex_rel_plain_graph"
    by code_simp
  note a = column_resolution [where candidates = id_aliases and cols = "columns ex_nodes_notype"
      and d = ex_nodes_notype and loads = no_json and G = empty_graph and lbl = "''nodes_doc''"
      and ic = "''Id''"]
  note 1 = a [THEN conjunct1]
  note a4 = a [THEN conjunct2, THEN conjunct2, THEN conjunct2, THEN conjunct1, THEN mp, OF i]
  note 2 = a4 [THEN conjunct1]
  note 3 = a4 [THEN conjunct2, THEN conjunct2, THEN mp, OF ok]
  note b = column_resolution [where d = ex_nodes_kw and loads = no_json and G = empty_graph
      and lbl = "''nodes_doc''" and ic = "''id''" and m = "[]"]
  note 4 = b [THEN conjunct2, THEN conjunct2, THEN conjunct2, THEN conjunct1, THEN mp, OF k,
      THEN conjunct2, THEN conjunct1]
  note c = column_resolution [where d = ex_nodes_noid and loads = no_json and G = empty_graph
      and lbl = "''nodes_draw''"]
  note 5 = c [THEN conjunct2, THEN conjunct1, THEN mp, OF n]
  note d = column_resolution [where d = ex_rel_notarget and loads = no_json and G = empty_graph]
  note 6 = d [THEN conjunct2, THEN conjunct2, THEN conjunct1, THEN mp, OF t]
  note f = column_resolution [where d = ex_rel_plain and loads = no_json and G = empty_graph
      and sc = "''source''" and tc = "''target''"]
  note 7 = f [THEN conjunct2, THEN conjunct2, THEN conjunct2, THEN conjunct2, THEN conjunct1,
      THEN mp, OF st, THEN conjunct2, THEN conjunct2, THEN mp, OF eok]
  show ?thesis
    by (rule conjI [OF i conjI [OF 1 conjI [OF ty conjI [OF 2 conjI [OF ok conjI [OF 3
          conjI [OF g conjI [OF k conjI [OF 4 conjI [OF kt conjI [OF n conjI [OF 5
          conjI [OF j conjI [OF t conjI [OF 6 conjI [OF st conjI [OF r conjI [OF eok
          conjI [OF 7 e]]]]]]]]]]]]]]]]]]])
qed

subsection \<open>Claim C9: a missing mandatory column\<close>

text \<open>
  C9, as stated, fails: when the second node table has no id column the call ends with the
  error and returns no graph at all, although the first node table and the relation table
  are in order; assembly of the other tables does not complete.
\<close>

theorem missing_column_aborts_counterexample:
  "build_graph no_json (Some ex_nodes_a) (Some ex_nodes_noid) (Some ex_relations) =
     Inl (KeyError ''No id column found in nodes_draw; expected one of id/node_id/Id/ID'') \<and>
   build_graph no_json (Some ex_nodes_a) None (Some ex_relations) =
     Inr \<lparr>nodes =
            [(ustr ''n1'', [(''node_type'', Cell (Str (ustr ''Part''))),
                            (''name'', Cell (Str (ustr ''Bolt'')))]),
             (ustr ''n2'', [(''node_type'', Cell (Str (ustr ''unknown''))),
                            (''placeholder'', Flag True)]),
             (ustr ''n3'', [(''node_type'', Cell (Str (ustr ''unknown''))),
                            (''placeholder'', Flag True)])],
          edges =
            [((ustr ''n1'', ustr ''n2''), [(''relationship'', Cell (Str (ustr ''fastens'')))]),
             ((ustr ''n1'', ustr ''n3''), [(''relationship'', Cell (Str (ustr ''refs'')))])]\<rparr>"
  by code_simp

text \<open>
  C9, amended. The tables are processed in the order first node table, second node table,
  relation table, and the first exception ends the call. When a mandatory column is missing
  (the id of a node table, or the source or target of the relation table) and the passes
  over the tables before it have completed, the \<^verbatim>\<open>KeyError\<close> of that table surfaces to
  the caller of \<^verbatim>\<open>build_graph\<close>: for a node table its message names the table's label
  and the id field, for the relation table it is the fixed message about source and target
  columns. The error ends the whole assembly: the result is the error and no graph, so
  neither the failed table nor any other table contributes a node or an edge.
\<close>

theorem missing_column_aborts:
  "(\<not> has_id_column d1 \<longrightarrow>
      build_graph loads d1 d2 r =
        Inl (KeyError ''No id column found in nodes_doc; expected one of id/node_id/Id/ID'')) \<and>
   (add_nodes_from_df loads empty_graph d1 ''nodes_doc'' = Inr G1 \<and> \<not> has_id_column d2 \<longrightarrow>
      build_graph loads d1 d2 r =
        Inl (KeyError ''No id column found in nodes_draw; expected one of id/node_id/Id/ID'')) \<and>
   (add_nodes_from_df loads empty_graph d1 ''nodes_doc'' = Inr G1 \<and>
    add_nodes_from_df loads G1 d2 ''nodes_draw'' = Inr G2 \<and> \<not> has_endpoint_columns r \<longrightarrow>
      build_graph loads d1 d2 r =
        Inl (KeyError ''Relations CSV must contain source and target columns (e.g. source_id, target_id)''))"
proof (intro conjI impI)
  assume "\<not> has_id_column d1"
  then obtain d where "d1 = Some d" "find_col id_aliases (columns d) = None"
    by (auto simp: has_id_column_def split: option.splits)
  then show "build_graph loads d1 d2 r =
        Inl (KeyError ''No id column found in nodes_doc; expected one of id/node_id/Id/ID'')"
    by (simp add: build_graph_def add_nodes_from_df_fail)
next
  assume a: "add_nodes_from_df loads empty_graph d1 ''nodes_doc'' = Inr G1 \<and> \<not> has_id_column d2"
  then obtain d where "d2 = Some d" "find_col id_aliases (columns d) = None"
    by (auto simp: has_id_column_def split: option.splits)
  with a show "build_graph loads d1 d2 r =
        Inl (KeyError ''No id column found in nodes_draw; expected one of id/node_id/Id/ID'')"
    by (simp add: build_graph_def add_nodes_from_df_fail)
next
  assume a: "add_nodes_from_df loads empty_graph d1 ''nodes_doc'' = Inr G1 \<and>
    add_nodes_from_df loads G1 d2 ''nodes_draw'' = Inr G2 \<and> \<not> has_endpoint_columns r"
  then obtain d where "r = Some d"
    "find_col source_aliases (columns d) = None \<or> find_col target_aliases (columns d) = None"
    by (auto simp: has_endpoint_columns_def split: option.splits)
  with a show "build_graph loads d1 d2 r =
        Inl (KeyError ''Relations CSV must contain source and target columns (e.g. source_id, target_id)'')"
    by (simp add: build_graph_def add_relations_fail)
qed

theorem missing_column_aborts_witness:
  "\<not> has_id_column (Some ex_nodes_noid) \<and>
   build_graph no_json (Some ex_nodes_noid) (Some ex_nodes_b) (Some ex_relations) =
     Inl (KeyError ''No id column found in nodes_doc; expected one of id/node_id/Id/ID'') \<and>
   (add_nodes_from_df no_json empty_graph (Some ex_nodes_a) ''nodes_doc'' = Inr ex_nodes_a_graph \<and>
    \<not> has_id_column (Some ex_nodes_noid)) \<and>
   build_graph no_json (Some ex_nodes_a) (Some ex_nodes_noid) (Some ex_relations) =
     Inl (KeyError ''No id column found in nodes_draw; expected one of id/node_id/Id/ID'') \<and>
   (add_nodes_from_df no_json empty_graph (Some ex_nodes_a) ''nodes_doc'' = Inr ex_nodes_a_graph \<and>
    add_nodes_from_df no_json ex_nodes_a_graph (Some ex_nodes_b) ''nodes_draw'' =
      Inr ex_nodes_graph \<and>
    \<not> has_endpoint_columns (Some ex_rel_nocols)) \<and>
   build_graph no_json (Some ex_nodes_a) (Some ex_nodes_b) (Some ex_rel_nocols) =
     Inl (KeyError ''Relations CSV must contain source and target columns (e.g. source_id, target_id)'')"
proof -
  have n: "\<not> has_id_column (Some ex_nodes_noid)" by code_simp
  have a: "add_nodes_from_df no_json empty_graph (Some ex_nodes_a) ''nodes_doc'' =
      Inr ex_nodes_a_graph \<and> \<not> has_id_column (Some ex_nodes_noid)"
    by code_simp
  have e: "add_nodes_from_df no_json empty_graph (Some ex_nodes_a) ''nodes_doc'' =
      Inr ex_nodes_a_graph \<and>
    add_nodes_from_df no_json ex_nodes_a_graph (Some ex_nodes_b) ''nodes_draw'' =
      Inr ex_nodes_graph \<and>
    \<not> has_endpoint_columns (Some ex_rel_nocols)"
    by code_simp
  note 1 = missing_column_aborts [of "Some ex_nodes_noid" no_json "Some ex_nodes_b"
      "Some ex_relations", THEN conjunct1, THEN mp, OF n]
  note 2 = missing_column_aborts [of "Some ex_nodes_a" no_json "Some ex_nodes_noid"
      "Some ex_relations" ex_nodes_a_graph, THEN conjunct2, THEN conjunct1, THEN mp, OF a]
  note 3 = missing_column_aborts [of "Some ex_nodes_a" no_json "Some ex_nodes_b"
      "Some ex_rel_nocols" ex_nodes_a_graph ex_nodes_graph, THEN conjunct2, THEN conjunct2,
      THEN mp, OF e]
  show ?thesis
    by (rule conjI [OF n conjI [OF 1 conjI [OF a conjI [OF 2 conjI [OF e 3]]]]])
qed

subsection \<open>Claim C10: ids are string coercions of the raw cells\<close>

text \<open>
  C10. Whenever the mandatory columns resolve and no column is labelled like a parameter of
  the networkx calls (the two ways the assembler fails, neither depending on a cell),
  assembly succeeds whatever the cells hold: no id or endpoint cell, numeric or missing,
  makes it fail. The ids of the nodes of the assembled graph are exactly the \<^verbatim>\<open>str\<close>
  renderings of the id cells of the node tables and of the source and target cells of the
  relation table, each occurring once, and the edges join exactly the pairs of renderings
  of the relation rows. Hence two cells denote the same entity exactly when their
  renderings are equal (the number 7 and the string \<^verbatim>\<open>7\<close> merge; a missing cell is the
  entity \<^verbatim>\<open>nan\<close>).
\<close>

theorem ids_are_string_coercions:
  "(has_id_column d1 \<and> has_id_column d2 \<and> has_endpoint_columns r \<and>
    node_labels_ok d1 \<and> node_labels_ok d2 \<and> edge_labels_ok r \<longrightarrow>
      (\<exists>G'. build_graph loads d1 d2 r = Inr G')) \<and>
   (build_graph loads d1 d2 r = Inr G \<longrightarrow>
      distinct (map fst (nodes G)) \<and>
      fst ` set (nodes G) =
        py_str ` (set (id_cells d1) \<union> set (id_cells d2) \<union> fst ` set (endpoint_cells r)
                  \<union> snd ` set (endpoint_cells r)) \<and>
      fst ` set (edges G) = (\<lambda>(s, t). (py_str s, py_str t)) ` set (endpoint_cells r))"
proof (intro conjI impI)
  assume a: "has_id_column d1 \<and> has_id_column d2 \<and> has_endpoint_columns r \<and>
    node_labels_ok d1 \<and> node_labels_ok d2 \<and> edge_labels_ok r"
  then obtain G1 where 1: "add_nodes_from_df loads empty_graph d1 ''nodes_doc'' = Inr G1"
    using add_nodes_from_df_ok by blast
  from a obtain G2 where 2: "add_nodes_from_df loads G1 d2 ''nodes_draw'' = Inr G2"
    using add_nodes_from_df_ok by blast
  from a obtain G3 where 3: "add_relations loads G2 r = Inr G3"
    using add_relations_ok by blast
  from 1 2 3 show "\<exists>G'. build_graph loads d1 d2 r = Inr G'"
    by (simp add: build_graph_def)
next
  assume b: "build_graph loads d1 d2 r = Inr G"
  then show "distinct (map fst (nodes G))"
    by (rule distinct_nodes_build_graph)
  from b obtain G1 G2 where
    1: "add_nodes_from_df loads empty_graph d1 ''nodes_doc'' = Inr G1" and
    2: "add_nodes_from_df loads G1 d2 ''nodes_draw'' = Inr G2" and
    3: "add_relations loads G2 r = Inr G"
    unfolding build_graph_Inr by blast
  have n1: "fst ` set (nodes G1) = py_str ` set (id_cells d1)"
    using node_ids_add_nodes_from_df [OF 1] by (simp add: empty_graph_def)
  have n2: "fst ` set (nodes G2) = py_str ` set (id_cells d1) \<union> py_str ` set (id_cells d2)"
    using node_ids_add_nodes_from_df [OF 2] n1 by simp
  show "fst ` set (nodes G) =
        py_str ` (set (id_cells d1) \<union> set (id_cells d2) \<union> fst ` set (endpoint_cells r)
                  \<union> snd ` set (endpoint_cells r))"
    unfolding relations_ids(1) [OF 3] n2 by (simp add: image_Un)
  have "edges G2 = []"
    using edges_add_nodes_from_df [OF 1] edges_add_nodes_from_df [OF 2]
    by (simp add: empty_graph_def)
  then show "fst ` set (edges G) = (\<lambda>(s, t). (py_str s, py_str t)) ` set (endpoint_cells r)"
    unfolding relations_ids(2) [OF 3] by simp
qed

theorem ids_are_string_coercions_witness:
  "(has_id_column (Some ex_nodes_mixed) \<and> has_id_column None \<and>
    has_endpoint_columns (Some ex_rel_mixed) \<and>
    node_labels_ok (Some ex_nodes_mixed) \<and> node_labels_ok None \<and>
    edge_labels_ok (Some ex_rel_mixed)) \<and>
   (\<exists>G'. build_graph no_json (Some ex_nodes_mixed) None (Some ex_rel_mixed) = Inr G') \<and>
   build_graph no_json (Some ex_nodes_mixed) None (Some ex_rel_mixed) = Inr ex_mixed_graph \<and>
   (distinct (map fst (nodes ex_mixed_graph)) \<and>
    fst ` set (nodes ex_mixed_graph) =
      py_str ` (set (id_cells (Some ex_nodes_mixed)) \<union> set (id_cells None)
                \<union> fst ` set (endpoint_cells (Some ex_rel_mixed))
                \<union> snd ` set (endpoint_cells (Some ex_rel_mixed))) \<and>
    fst ` set (edges ex_mixed_graph) =
      (\<lambda>(s, t). (py_str s, py_str t)) ` set (endpoint_cells (Some ex_rel_mixed))) \<and>
   id_cells (Some ex_nodes_mixed) = [Num 7, Str (ustr ''7''), NaN] \<and>
   endpoint_cells (Some ex_rel_mixed) =
     [(Num (- 12), Str (ustr ''7'')), (NaN, Str (ustr ''nan''))] \<and>
   map fst (nodes ex_mixed_graph) = [ustr ''7'', ustr ''nan'', ustr ''-12'']"
proof -
  have h: "has_id_column (Some ex_nodes_mixed) \<and> has_id_column None \<and>
    has_endpoint_columns (Some ex_rel_mixed) \<and>
    node_labels_ok (Some ex_nodes_mixed) \<and> node_labels_ok None \<and>
    edge_labels_ok (Some ex_rel_mixed)"
    by code_simp
  have b: "build_graph no_json (Some ex_nodes_mixed) None (Some ex_rel_mixed)
             = Inr ex_mixed_graph"
    by code_simp
  have i: "id_cells (Some ex_nodes_mixed) = [Num 7, Str (ustr ''7''), NaN]"
    by code_simp
  have e: "endpoint_cells (Some ex_rel_mixed) =
     [(Num (- 12), Str (ustr ''7'')), (NaN, Str (ustr ''nan''))]"
    by code_simp
  have k: "map fst (nodes ex_mixed_graph) = [ustr ''7'', ustr ''nan'', ustr ''-12'']"
    by code_simp
  note t = ids_are_string_coercions [of "Some ex_nodes_mixed" None "Some ex_rel_mixed" no_json
      ex_mixed_graph]
  note 1 = t [THEN conjunct1, THEN mp, OF h]
  note 2 = t [THEN conjunct2, THEN mp, OF b]
  show ?thesis
    by (rule conjI [OF h conjI [OF 1 conjI [OF b conjI [OF 2 conjI [OF i conjI [OF e k]]]]]])
qed

end
